theory Spec2Isabelle
  imports Main
begin

section \<open>Values exchanged with the collaborators of \<^verbatim>\<open>modules/xmpp/Lobby.js\<close>\<close>

text \<open>
  The controller of \<^verbatim>\<open>Lobby.js\<close> owns one field of its own (\<^verbatim>\<open>this.lobbyRoom\<close>) and
  otherwise acts by calling its collaborators: the transport (\<^verbatim>\<open>xmpp.connection.sendIQ\<close>),
  the room factory (\<^verbatim>\<open>xmpp.createRoom\<close>), the main room and the lobby room.  The model
  keeps the controller's field, the part of the collaborators' state that the file reads
  (moderator status, room identifier, the lobby room's members, the callbacks it has
  handed over), and the sequence of calls made to the collaborators (\<open>trace\<close>).

  A JavaScript argument that may be missing is a \<open>string option\<close>: \<open>None\<close> is
  \<^verbatim>\<open>undefined\<close>.  The tests \<^verbatim>\<open>if (password)\<close>, \<^verbatim>\<open>if (email && ...)\<close> and
  \<^verbatim>\<open>Boolean(address)\<close> are JavaScript truthiness: a string is truthy when it is not empty.
\<close>

definition truthy :: "string option \<Rightarrow> bool" where
  "truthy v = (case v of None \<Rightarrow> False | Some x \<Rightarrow> x \<noteq> [])"

text \<open>How a template string prints a value that may be \<^verbatim>\<open>undefined\<close>.\<close>

definition show_opt :: "string option \<Rightarrow> string" where
  "show_opt v = (case v of None \<Rightarrow> ''undefined'' | Some x \<Rightarrow> x)"

subsection \<open>Stanzas and the Strophe builder\<close>

datatype xml = Elem string "(string \<times> string) list" "xml list" | Text string

text \<open>
  \<^verbatim>\<open>$iq(attrs)\<close> and \<^verbatim>\<open>$msg(attrs)\<close> start a builder at a root element; \<^verbatim>\<open>.c(name, attrs)\<close>
  appends a child to the current element and moves into it, \<^verbatim>\<open>.t(text)\<close> appends a text
  node and stays, \<^verbatim>\<open>.up()\<close> moves to the parent.  The current element is always the last
  one opened, so the builder is the list of the elements that are still open, innermost
  first, each with the children it has so far.  Every \<^verbatim>\<open>.up()\<close> of \<^verbatim>\<open>Lobby.js\<close> has an
  open parent; at the root \<open>up\<close> is left as the identity.

  The builder of an \<^verbatim>\<open>iq\<close> or a \<^verbatim>\<open>message\<close> puts the stanza into the namespace
  \<^verbatim>\<open>jabber:client\<close>: when the attributes given have no \<^verbatim>\<open>xmlns\<close> (or an empty one), it
  sets \<^verbatim>\<open>attrs.xmlns\<close> before it makes the root element (\<open>client_ns\<close>).
\<close>

type_synonym frame = "string \<times> (string \<times> string) list \<times> xml list"
type_synonym builder = "frame \<times> frame list"

definition client_ns :: "(string \<times> string) list \<Rightarrow> (string \<times> string) list" where
  "client_ns attrs =
     (case map_of attrs ''xmlns'' of
        None \<Rightarrow> attrs @ [(''xmlns'', ''jabber:client'')]
      | Some v \<Rightarrow>
          if v = [] then
            map (\<lambda>(k, w). if k = ''xmlns'' then (k, ''jabber:client'') else (k, w)) attrs
          else attrs)"

definition iq :: "(string \<times> string) list \<Rightarrow> builder" where
  "iq attrs = ((''iq'', client_ns attrs, []), [])"

definition msg :: "(string \<times> string) list \<Rightarrow> builder" where
  "msg attrs = ((''message'', client_ns attrs, []), [])"

fun c :: "string \<Rightarrow> (string \<times> string) list \<Rightarrow> builder \<Rightarrow> builder" where
  "c name attrs (cur, outer) = ((name, attrs, []), cur # outer)"

fun t :: "string \<Rightarrow> builder \<Rightarrow> builder" where
  "t txt ((n, a, k), outer) = ((n, a, k @ [Text txt]), outer)"

fun up :: "builder \<Rightarrow> builder" where
  "up ((n, a, k), (n', a', k') # outer) = ((n', a', k' @ [Elem n a k]), outer)"
| "up (cur, []) = (cur, [])"

text \<open>\<^verbatim>\<open>tree()\<close>: the root element with everything appended so far.\<close>

fun tree :: "builder \<Rightarrow> xml" where
  "tree ((n, a, k), []) = Elem n a k"
| "tree ((n, a, k), (n', a', k') # outer) = tree ((n', a', k' @ [Elem n a k]), outer)"

text \<open>
  The jQuery selector of \<^verbatim>\<open>enableLobby\<close>,
  \<^verbatim>\<open>>query>x[xmlns="jabber:x:data"]>field[var="muc#roomconfig_membersonly"]\<close>:
  child steps only, each on an element name and on the attribute values asked for.  The
  selector engine compares element names after \<^verbatim>\<open>toLowerCase()\<close> on both sides; it reads
  an attribute with \<^verbatim>\<open>getAttribute\<close> and compares its value as it is.  \<open>toLowerCase\<close>
  maps the letters A to Z: no other character becomes a letter of \<^verbatim>\<open>query\<close>, \<^verbatim>\<open>x\<close> or
  \<^verbatim>\<open>field\<close>, the names the selector asks for.
\<close>

fun children :: "xml \<Rightarrow> xml list" where
  "children (Elem n a k) = k"
| "children (Text txt) = []"

definition toLowerCase :: "string \<Rightarrow> string" where
  "toLowerCase =
     map (\<lambda>ch. case map_of (zip ''ABCDEFGHIJKLMNOPQRSTUVWXYZ'' ''abcdefghijklmnopqrstuvwxyz'') ch of
                None \<Rightarrow> ch
              | Some l \<Rightarrow> l)"

fun matches :: "string \<Rightarrow> (string \<times> string) list \<Rightarrow> xml \<Rightarrow> bool" where
  "matches name want (Elem n a k) =
     (toLowerCase n = toLowerCase name \<and> list_all (\<lambda>(key, v). map_of a key = Some v) want)"
| "matches name want (Text txt) = False"

definition child_step :: "string \<Rightarrow> (string \<times> string) list \<Rightarrow> xml list \<Rightarrow> xml list" where
  "child_step name want xs = concat (map (\<lambda>x. filter (matches name want) (children x)) xs)"

definition find_membersonly :: "xml \<Rightarrow> xml list" where
  "find_membersonly res =
     child_step ''field'' [(''var'', ''muc#roomconfig_membersonly'')]
       (child_step ''x'' [(''xmlns'', ''jabber:x:data'')]
         (child_step ''query'' [] [res]))"

subsection \<open>Addresses\<close>

text \<open>
  \<^verbatim>\<open>Strophe.getNodeFromJid\<close> is the part before the first \<^verbatim>\<open>@\<close>,
  \<^verbatim>\<open>Strophe.getResourceFromJid\<close> the part after the first \<^verbatim>\<open>/\<close>; each is \<^verbatim>\<open>null\<close> when
  the separator is absent.
\<close>

definition getNodeFromJid :: "string \<Rightarrow> string option" where
  "getNodeFromJid j =
     (if CHR ''@'' \<in> set j then Some (takeWhile (\<lambda>ch. ch \<noteq> CHR ''@'') j) else None)"

definition getResourceFromJid :: "string \<Rightarrow> string option" where
  "getResourceFromJid j =
     (if CHR ''/'' \<in> set j then Some (tl (dropWhile (\<lambda>ch. ch \<noteq> CHR ''/'') j)) else None)"

subsection \<open>Errors, promises, events\<close>

text \<open>
  A rejection value is either an \<^verbatim>\<open>Error\<close> made by \<^verbatim>\<open>Lobby.js\<close> or a value received
  from the transport or from a room.  The only exception the file can raise is the
  \<^verbatim>\<open>TypeError\<close> of reading a property of an undefined \<^verbatim>\<open>this.lobbyRoom\<close>.
\<close>

datatype reason = Error string | Received string

datatype exn = TypeError

datatype completion = Normal | Throw exn

datatype outcome = Resolved | Rejected reason

text \<open>
  A promise is either made by \<^verbatim>\<open>Lobby.js\<close> (\<open>Own\<close>, numbered in order of creation) or
  returned by a collaborator (\<open>Returned n\<close>: the value returned by the call at position
  \<open>n\<close> of the trace).  The reactions attached by the file are
  \<^verbatim>\<open>.then(resolve).catch(reject)\<close> (\<open>Forward\<close> to an own promise) and
  \<^verbatim>\<open>.then(() => { }).catch(() => { })\<close> (\<open>Swallow\<close>).
\<close>

datatype promise = Own nat | Returned nat

datatype reaction = Forward nat | Swallow

datatype event =
    MUC_MEMBER_JOINED | KICKED | INVITE_MESSAGE_RECEIVED | MUC_JOINED
  | ROOM_JOIN_ERROR | ROOM_CONNECT_NOT_ALLOWED_ERROR | ROOM_CONNECT_ERROR

datatype identity = Identity (avatar: "string option")

text \<open>An event as a room emits it, with the arguments the listeners of the file read.\<close>

datatype room_event =
    MemberJoined string "string option" string bool "string option" "string option" "identity option"
  | Kicked bool
  | InviteMessageReceived string string string
  | MucJoined
  | RoomJoinError reason
  | RoomConnectNotAllowedError reason
  | RoomConnectError reason

fun event_of :: "room_event \<Rightarrow> event" where
  "event_of (MemberJoined frm nick role hidden statsID status ident) = MUC_MEMBER_JOINED"
| "event_of (Kicked isSelfPresence) = KICKED"
| "event_of (InviteMessageReceived roomJid frm txt) = INVITE_MESSAGE_RECEIVED"
| "event_of MucJoined = MUC_JOINED"
| "event_of (RoomJoinError e) = ROOM_JOIN_ERROR"
| "event_of (RoomConnectNotAllowedError e) = ROOM_CONNECT_NOT_ALLOWED_ERROR"
| "event_of (RoomConnectError e) = ROOM_CONNECT_ERROR"

text \<open>
  The closures of \<^verbatim>\<open>Lobby.js\<close>, each with the variables it captures.  All of them reach
  the controller through \<^verbatim>\<open>this\<close>, so they read \<^verbatim>\<open>this.lobbyRoom\<close> as it is when they
  run.
\<close>

datatype handler =
    OnMemberJoined
  | OnKicked
  | OnInvite
  | OnMucJoined nat "string option" bool
  | Reject nat
  | OnEmailPresence

text \<open>
  The callbacks given to \<^verbatim>\<open>sendIQ\<close>: the one called with the answer, and the one
  called with the error.
\<close>

datatype iq_callback =
    ConfigFormReceived nat "string option"
  | ConfigSubmitted nat
  | Ignore

datatype iq_errback =
    RejectWith nat
  | LogInviteError string

record presence_node =
  attributes :: "(string \<times> string) list"
  node_value :: string

record room_options =
  disableDiscoInfo :: bool
  disableFocus :: bool
  customDomain :: "string option"

text \<open>What is emitted on \<^verbatim>\<open>mainRoom.eventEmitter\<close>.\<close>

datatype notification =
    MUC_LOBBY_MEMBER_UPDATED string string
  | MUC_LOBBY_MEMBER_JOINED "string option" "string option" "string option"
  | MUC_DENIED_ACCESS

text \<open>
  The calls made to the collaborators.  A room is named by its number in the store of
  rooms.  \<open>SendPresence\<close> records the presence nodes the room holds when it is called.
\<close>

datatype effect =
    SendIQ xml
  | CreateRoom "string option" room_options nat
  | MainJoin "string option"
  | Join nat
  | Leave nat
  | Clean nat
  | Kick nat string
  | SendPresence nat "(string \<times> presence_node) list"
  | Emit notification

datatype log_entry = LogDebug string | LogError string "reason option"

section \<open>The state\<close>

text \<open>
  Modelled from the spec: the generic chat room (\<^verbatim>\<open>ChatRoom\<close>) is not part of the file.
  Of a room the model keeps what section 6 of the specification lists and \<^verbatim>\<open>Lobby.js\<close>
  uses: the \<open>members\<close> mapping (room-scoped address to a record with the full address
  \<open>jid\<close>, in the order of \<^verbatim>\<open>Object.keys\<close>), the presence nodes set with
  \<^verbatim>\<open>addToPresence\<close>, and the listeners registered with \<^verbatim>\<open>addEventListener\<close> and
  \<^verbatim>\<open>addPresenceListener\<close>, in the order of registration.
\<close>

record member =
  jid :: string

record chat_room =
  members :: "(string \<times> member) list"
  presence :: "(string \<times> presence_node) list"
  listeners :: "(event \<times> handler) list"
  presenceListeners :: "(string \<times> handler) list"

definition empty_room :: chat_room where
  "empty_room = \<lparr>members = [], presence = [], listeners = [], presenceListeners = []\<rparr>"

text \<open>
  The controller with its surroundings.  \<open>lobbyroomComponentAddress\<close> is
  \<^verbatim>\<open>this.xmpp.lobbyroomComponentAddress\<close>; \<open>roomjid\<close>, \<open>joined\<close>, \<open>isModerator\<close> and
  \<open>mainListeners\<close> belong to \<^verbatim>\<open>this.mainRoom\<close>; \<open>lobbyRoom\<close> is \<^verbatim>\<open>this.lobbyRoom\<close>, a
  reference into the store \<open>rooms\<close> of the rooms made by \<^verbatim>\<open>createRoom\<close>; \<open>iqs\<close> holds the
  callbacks of the requests that wait for an answer; \<open>promises\<close> holds the promises
  made by the file (\<open>None\<close>: pending) and \<open>reactions\<close> what it attached to promises;
  \<open>trace\<close> is the sequence of calls to the collaborators and \<open>logged\<close> the logger's
  output.
\<close>

record lobby =
  lobbyroomComponentAddress :: "string option"
  roomjid :: string
  joined :: bool
  isModerator :: bool
  mainListeners :: "(event \<times> handler) list"
  lobbyRoom :: "nat option"
  rooms :: "nat \<Rightarrow> chat_room"
  nextRoom :: nat
  iqs :: "nat \<Rightarrow> (iq_callback \<times> iq_errback) option"
  nextIq :: nat
  promises :: "nat \<Rightarrow> outcome option"
  nextPromise :: nat
  reactions :: "(promise \<times> reaction) list"
  trace :: "effect list"
  logged :: "log_entry list"

text \<open>
  The constructor keeps the main room and its \<^verbatim>\<open>xmpp\<close>; \<^verbatim>\<open>this.lobbyRoom\<close> is not
  assigned.  The arguments are what the main room is at that moment.
\<close>

definition constructor :: "string option \<Rightarrow> string \<Rightarrow> bool \<Rightarrow> bool \<Rightarrow> lobby" where
  "constructor address room_jid is_joined is_moderator =
     \<lparr>lobbyroomComponentAddress = address, roomjid = room_jid, joined = is_joined,
      isModerator = is_moderator, mainListeners = [], lobbyRoom = None,
      rooms = (\<lambda>r. empty_room), nextRoom = 0, iqs = (\<lambda>k. None), nextIq = 0,
      promises = (\<lambda>p. None), nextPromise = 0, reactions = [], trace = [], logged = []\<rparr>"

subsection \<open>Calls to the collaborators\<close>

definition call :: "effect \<Rightarrow> lobby \<Rightarrow> lobby" where
  "call e s = s\<lparr>trace := trace s @ [e]\<rparr>"

definition logger :: "log_entry \<Rightarrow> lobby \<Rightarrow> lobby" where
  "logger e s = s\<lparr>logged := logged s @ [e]\<rparr>"

definition update_room :: "nat \<Rightarrow> (chat_room \<Rightarrow> chat_room) \<Rightarrow> lobby \<Rightarrow> lobby" where
  "update_room r f s = s\<lparr>rooms := (rooms s)(r := f (rooms s r))\<rparr>"

text \<open>
  \<^verbatim>\<open>connection.sendIQ(stanza, callback, errback)\<close> sends the tree of the builder and keeps
  the two callbacks until the answer comes.
\<close>

definition sendIQ :: "builder \<Rightarrow> iq_callback \<Rightarrow> iq_errback \<Rightarrow> lobby \<Rightarrow> lobby" where
  "sendIQ stanza callback errback s =
     (call (SendIQ (tree stanza)) s)
       \<lparr>iqs := (iqs s)(nextIq s := Some (callback, errback)), nextIq := Suc (nextIq s)\<rparr>"

text \<open>
  Modelled from the spec: \<^verbatim>\<open>xmpp.createRoom(localName, options)\<close>, the room factory, makes
  a new room instance.
\<close>

definition createRoom :: "string option \<Rightarrow> room_options \<Rightarrow> lobby \<Rightarrow> nat \<times> lobby" where
  "createRoom roomName options s =
     (nextRoom s,
      (call (CreateRoom roomName options (nextRoom s)) s)
        \<lparr>rooms := (rooms s)(nextRoom s := empty_room), nextRoom := Suc (nextRoom s)\<rparr>)"

text \<open>
  Modelled from the spec: the operations of a room, section 6, on the lobby room (named
  by its number) and on the main room.  \<^verbatim>\<open>removeFromPresence\<close> drops the nodes of a
  command, \<^verbatim>\<open>addToPresence\<close> replaces them by the new node, \<^verbatim>\<open>sendPresence\<close> sends
  the nodes the room holds; \<^verbatim>\<open>join\<close> and \<^verbatim>\<open>leave\<close> return a promise; a listener is
  added after those registered before.
\<close>

definition removeFromPresence :: "nat \<Rightarrow> string \<Rightarrow> lobby \<Rightarrow> lobby" where
  "removeFromPresence r key s =
     update_room r (\<lambda>room. room\<lparr>presence := filter (\<lambda>(k, n). k \<noteq> key) (presence room)\<rparr>) s"

definition addToPresence :: "nat \<Rightarrow> string \<Rightarrow> presence_node \<Rightarrow> lobby \<Rightarrow> lobby" where
  "addToPresence r key node s =
     update_room r
       (\<lambda>room. room\<lparr>presence := filter (\<lambda>(k, n). k \<noteq> key) (presence room) @ [(key, node)]\<rparr>) s"

definition sendPresence :: "nat \<Rightarrow> lobby \<Rightarrow> lobby" where
  "sendPresence r s = call (SendPresence r (presence (rooms s r))) s"

definition addEventListener :: "nat \<Rightarrow> event \<Rightarrow> handler \<Rightarrow> lobby \<Rightarrow> lobby" where
  "addEventListener r ev h s =
     update_room r (\<lambda>room. room\<lparr>listeners := listeners room @ [(ev, h)]\<rparr>) s"

definition addPresenceListener :: "nat \<Rightarrow> string \<Rightarrow> handler \<Rightarrow> lobby \<Rightarrow> lobby" where
  "addPresenceListener r cmd h s =
     update_room r (\<lambda>room. room\<lparr>presenceListeners := presenceListeners room @ [(cmd, h)]\<rparr>) s"

definition join :: "nat \<Rightarrow> lobby \<Rightarrow> promise \<times> lobby" where
  "join r s = (Returned (length (trace s)), call (Join r) s)"

definition leave :: "nat \<Rightarrow> lobby \<Rightarrow> promise \<times> lobby" where
  "leave r s = (Returned (length (trace s)), call (Leave r) s)"

definition clean :: "nat \<Rightarrow> lobby \<Rightarrow> lobby" where
  "clean r s = call (Clean r) s"

definition kick :: "nat \<Rightarrow> string \<Rightarrow> lobby \<Rightarrow> lobby" where
  "kick r j s = call (Kick r j) s"

definition mainRoom_join :: "string option \<Rightarrow> lobby \<Rightarrow> promise \<times> lobby" where
  "mainRoom_join password s = (Returned (length (trace s)), call (MainJoin password) s)"

definition mainRoom_addEventListener :: "event \<Rightarrow> handler \<Rightarrow> lobby \<Rightarrow> lobby" where
  "mainRoom_addEventListener ev h s = s\<lparr>mainListeners := mainListeners s @ [(ev, h)]\<rparr>"

definition emit :: "notification \<Rightarrow> lobby \<Rightarrow> lobby" where
  "emit n s = call (Emit n) s"

subsection \<open>Promises\<close>

text \<open>
  \<^verbatim>\<open>new Promise\<close> makes a pending promise; \<^verbatim>\<open>Promise.reject(e)\<close> one that is rejected
  already.  Settling a promise that is settled has no effect.  A reaction runs when its
  promise settles, once (the delay of the microtask queue is not modelled).  \<open>Forward p\<close>
  hands the outcome to the \<^verbatim>\<open>resolve\<close> or \<^verbatim>\<open>reject\<close> of the own promise \<open>p\<close>; the
  file attaches no reaction of its own to a promise that is the target of a \<open>Forward\<close>
  (the result of \<^verbatim>\<open>enableLobby\<close>), so \<open>settle_own\<close> is all that happens there.
\<close>

definition new_promise :: "lobby \<Rightarrow> nat \<times> lobby" where
  "new_promise s =
     (nextPromise s,
      s\<lparr>promises := (promises s)(nextPromise s := None), nextPromise := Suc (nextPromise s)\<rparr>)"

definition promise_reject :: "reason \<Rightarrow> lobby \<Rightarrow> promise \<times> lobby" where
  "promise_reject e s =
     (Own (nextPromise s),
      s\<lparr>promises := (promises s)(nextPromise s := Some (Rejected e)),
        nextPromise := Suc (nextPromise s)\<rparr>)"

definition settle_own :: "nat \<Rightarrow> outcome \<Rightarrow> lobby \<Rightarrow> lobby" where
  "settle_own p out s =
     (case promises s p of
        None \<Rightarrow> s\<lparr>promises := (promises s)(p := Some out)\<rparr>
      | Some old \<Rightarrow> s)"

fun run_reaction :: "outcome \<Rightarrow> reaction \<Rightarrow> lobby \<Rightarrow> lobby" where
  "run_reaction out (Forward p) s = settle_own p out s"
| "run_reaction out Swallow s = s"

definition is_settled :: "promise \<Rightarrow> lobby \<Rightarrow> bool" where
  "is_settled q s = (case q of Own p \<Rightarrow> promises s p \<noteq> None | Returned n \<Rightarrow> False)"

definition settle :: "promise \<Rightarrow> outcome \<Rightarrow> lobby \<Rightarrow> lobby" where
  "settle q out s =
     (if is_settled q s then s
      else
        let s1 = (case q of Own p \<Rightarrow> settle_own p out s | Returned n \<Rightarrow> s);
            todo = map snd (filter (\<lambda>(q', r). q' = q) (reactions s1));
            s2 = s1\<lparr>reactions := filter (\<lambda>(q', r). q' \<noteq> q) (reactions s1)\<rparr>
        in fold (run_reaction out) todo s2)"

definition attach :: "promise \<Rightarrow> reaction \<Rightarrow> lobby \<Rightarrow> lobby" where
  "attach q r s =
     (case q of
        Own p \<Rightarrow>
          (case promises s p of
             Some out \<Rightarrow> run_reaction out r s
           | None \<Rightarrow> s\<lparr>reactions := reactions s @ [(q, r)]\<rparr>)
      | Returned n \<Rightarrow> s\<lparr>reactions := reactions s @ [(q, r)]\<rparr>)"

section \<open>The operations of \<^verbatim>\<open>Lobby.js\<close>\<close>

definition EMAIL_COMMAND :: string where
  "EMAIL_COMMAND = ''email''"

definition isLobbySupported :: "lobby \<Rightarrow> bool" where
  "isLobbySupported s = truthy (lobbyroomComponentAddress s)"

subsection \<open>\<^verbatim>\<open>joinLobbyRoom\<close>\<close>

definition joinLobbyRoom ::
  "string option \<Rightarrow> string option \<Rightarrow> string option \<Rightarrow> lobby \<Rightarrow> promise \<times> lobby" where
  "joinLobbyRoom displayName email password s =
     (let is_moderator = (joined s \<and> isModerator s) in
      if truthy password \<and> \<not> is_moderator then mainRoom_join password s
      else
        let roomName = getNodeFromJid (roomjid s);
            (r, s1) = createRoom roomName
                        \<lparr>disableDiscoInfo = True, disableFocus = True,
                         customDomain = lobbyroomComponentAddress s\<rparr> s;
            s2 = s1\<lparr>lobbyRoom := Some r\<rparr>;
            s3 = (case displayName of
                    None \<Rightarrow> s2
                  | Some name \<Rightarrow>
                      if name \<noteq> [] then
                        addToPresence r ''nick''
                          \<lparr>attributes = [(''xmlns'', ''http://jabber.org/protocol/nick'')],
                           node_value = name\<rparr>
                          (removeFromPresence r ''nick'' s2)
                      else s2);
            s4 = (if is_moderator then
                    addEventListener r MUC_MEMBER_JOINED OnMemberJoined
                      (addPresenceListener r EMAIL_COMMAND OnEmailPresence s3)
                  else
                    mainRoom_addEventListener INVITE_MESSAGE_RECEIVED OnInvite
                      (addEventListener r KICKED OnKicked s3));
            (p, s5) = new_promise s4;
            s6 = addEventListener r MUC_JOINED (OnMucJoined p email is_moderator) s5;
            s7 = addEventListener r ROOM_JOIN_ERROR (Reject p) s6;
            s8 = addEventListener r ROOM_CONNECT_NOT_ALLOWED_ERROR (Reject p) s7;
            s9 = addEventListener r ROOM_CONNECT_ERROR (Reject p) s8
        in (Own p, snd (join r s9)))"

subsection \<open>The listeners\<close>

text \<open>
  A listener is registered only for the event it is written for; the other pairs of a
  listener and an event do not arise and are left without effect.  A listener that reads
  a property of \<^verbatim>\<open>this.lobbyRoom\<close> while the field is undefined throws, after what it
  has done so far.
\<close>

fun run_handler :: "handler \<Rightarrow> room_event \<Rightarrow> lobby \<Rightarrow> completion \<times> lobby" where
  "run_handler OnMemberJoined (MemberJoined frm nick role hidden statsID status ident) s =
     (Normal,
      emit (MUC_LOBBY_MEMBER_JOINED (getResourceFromJid frm) nick
              (case ident of None \<Rightarrow> None | Some i \<Rightarrow> avatar i)) s)"
| "run_handler OnKicked (Kicked isSelfPresence) s =
     (if isSelfPresence then
        (let s1 = emit MUC_DENIED_ACCESS s in
         case lobbyRoom s1 of
           None \<Rightarrow> (Throw TypeError, s1)
         | Some r \<Rightarrow> (Normal, clean r s1))
      else (Normal, s))"
| "run_handler OnInvite (InviteMessageReceived roomJid frm txt) s =
     (let s1 = logger (LogDebug (''Received approval to join '' @ roomJid @ '' '' @ frm
                                  @ '' '' @ txt)) s in
      if roomJid = roomjid s1 then
        (let s2 = snd (mainRoom_join None s1) in
         case lobbyRoom s2 of
           None \<Rightarrow> (Throw TypeError, s2)
         | Some r \<Rightarrow> (let (q, s3) = leave r s2 in (Normal, attach q Swallow s3)))
      else (Normal, s1))"
| "run_handler (OnMucJoined p email is_moderator) MucJoined s =
     (let s1 = settle (Own p) Resolved s in
      case email of
        None \<Rightarrow> (Normal, s1)
      | Some address \<Rightarrow>
          if address \<noteq> [] \<and> \<not> is_moderator then
            (case lobbyRoom s1 of
               None \<Rightarrow> (Throw TypeError, s1)
             | Some r \<Rightarrow>
                 (Normal,
                  sendPresence r
                    (addToPresence r EMAIL_COMMAND \<lparr>attributes = [], node_value = address\<rparr>
                      (removeFromPresence r EMAIL_COMMAND s1))))
          else (Normal, s1))"
| "run_handler (Reject p) (RoomJoinError e) s = (Normal, settle (Own p) (Rejected e) s)"
| "run_handler (Reject p) (RoomConnectNotAllowedError e) s =
     (Normal, settle (Own p) (Rejected e) s)"
| "run_handler (Reject p) (RoomConnectError e) s = (Normal, settle (Own p) (Rejected e) s)"
| "run_handler h ev s = (Normal, s)"

text \<open>The listener of the e-mail command gets the presence node and the sender.\<close>

fun run_presence_handler :: "handler \<Rightarrow> presence_node \<Rightarrow> string \<Rightarrow> lobby \<Rightarrow> lobby" where
  "run_presence_handler OnEmailPresence node frm s =
     emit (MUC_LOBBY_MEMBER_UPDATED frm (node_value node)) s"
| "run_presence_handler h node frm s = s"

text \<open>
  An emitter calls the listeners of the event in the order of registration; a listener
  that throws ends the call.
\<close>

fun run_handlers :: "handler list \<Rightarrow> room_event \<Rightarrow> lobby \<Rightarrow> completion \<times> lobby" where
  "run_handlers [] ev s = (Normal, s)"
| "run_handlers (h # hs) ev s =
     (case run_handler h ev s of
        (Normal, s') \<Rightarrow> run_handlers hs ev s'
      | (Throw e, s') \<Rightarrow> (Throw e, s'))"

definition handlers_for :: "'a \<Rightarrow> ('a \<times> handler) list \<Rightarrow> handler list" where
  "handlers_for ev ls = map snd (filter (\<lambda>(e, h). e = ev) ls)"

definition room_emits :: "nat \<Rightarrow> room_event \<Rightarrow> lobby \<Rightarrow> completion \<times> lobby" where
  "room_emits r ev s = run_handlers (handlers_for (event_of ev) (listeners (rooms s r))) ev s"

definition mainRoom_emits :: "room_event \<Rightarrow> lobby \<Rightarrow> completion \<times> lobby" where
  "mainRoom_emits ev s = run_handlers (handlers_for (event_of ev) (mainListeners s)) ev s"

definition presence_received :: "nat \<Rightarrow> string \<Rightarrow> presence_node \<Rightarrow> string \<Rightarrow> lobby \<Rightarrow> lobby" where
  "presence_received r cmd node frm s =
     fold (\<lambda>h. run_presence_handler h node frm)
       (handlers_for cmd (presenceListeners (rooms s r))) s"

subsection \<open>\<^verbatim>\<open>enableLobby\<close>\<close>

definition config_query :: "string \<Rightarrow> builder" where
  "config_query room_jid =
     c ''query'' [(''xmlns'', ''http://jabber.org/protocol/muc#owner'')]
       (iq [(''to'', room_jid), (''type'', ''get'')])"

definition formsubmit :: "string \<Rightarrow> string option \<Rightarrow> builder" where
  "formsubmit room_jid password =
     (let b0 = c ''query'' [(''xmlns'', ''http://jabber.org/protocol/muc#owner'')]
                 (iq [(''to'', room_jid), (''type'', ''set'')]);
          b1 = c ''x'' [(''xmlns'', ''jabber:x:data''), (''type'', ''submit'')] b0;
          b2 = up (up (t ''http://jabber.org/protocol/muc#roomconfig''
                        (c ''value'' [] (c ''field'' [(''var'', ''FORM_TYPE'')] b1))));
          b3 = up (up (t ''true''
                        (c ''value'' []
                          (c ''field'' [(''var'', ''muc#roomconfig_membersonly'')] b2))))
      in case password of
           None \<Rightarrow> b3
         | Some pw \<Rightarrow>
             if pw \<noteq> [] then
               up (up (t pw
                        (c ''value'' []
                          (c ''field'' [(''var'', ''muc#roomconfig_lobbypassword'')] b3))))
             else b3)"

fun run_callback :: "iq_callback \<Rightarrow> xml \<Rightarrow> lobby \<Rightarrow> lobby" where
  "run_callback (ConfigFormReceived p password) res s =
     (if find_membersonly res \<noteq> [] then
        sendIQ (formsubmit (roomjid s) password) (ConfigSubmitted p) (RejectWith p) s
      else settle (Own p) (Rejected (Error ''Setting members only room not supported!'')) s)"
| "run_callback (ConfigSubmitted p) res s =
     (let (q, s1) = joinLobbyRoom None None None s in attach q (Forward p) s1)"
| "run_callback Ignore res s = s"

fun run_errback :: "iq_errback \<Rightarrow> reason \<Rightarrow> lobby \<Rightarrow> lobby" where
  "run_errback (RejectWith p) e s = settle (Own p) (Rejected e) s"
| "run_errback (LogInviteError j) e s =
     logger (LogError (''Error sending invite for '' @ j) (Some e)) s"

definition enableLobby :: "string option \<Rightarrow> lobby \<Rightarrow> promise \<times> lobby" where
  "enableLobby password s =
     (if \<not> isLobbySupported s then promise_reject (Error ''Lobby not supported!'') s
      else
        let (p, s1) = new_promise s
        in (Own p,
            sendIQ (config_query (roomjid s1)) (ConfigFormReceived p password) (RejectWith p) s1))"

text \<open>The transport answers a request once: with a result or with an error.\<close>

definition iq_result :: "nat \<Rightarrow> xml \<Rightarrow> lobby \<Rightarrow> lobby" where
  "iq_result k res s =
     (case iqs s k of
        None \<Rightarrow> s
      | Some (callback, errback) \<Rightarrow> run_callback callback res (s\<lparr>iqs := (iqs s)(k := None)\<rparr>))"

definition iq_error :: "nat \<Rightarrow> reason \<Rightarrow> lobby \<Rightarrow> lobby" where
  "iq_error k e s =
     (case iqs s k of
        None \<Rightarrow> s
      | Some (callback, errback) \<Rightarrow> run_errback errback e (s\<lparr>iqs := (iqs s)(k := None)\<rparr>))"

subsection \<open>\<^verbatim>\<open>denyAccess\<close> and \<^verbatim>\<open>approveAccess\<close>\<close>

text \<open>
  \<^verbatim>\<open>Object.keys(this.lobbyRoom.members).find(j => Strophe.getResourceFromJid(j) === id)\<close>:
  the first key whose resource is the identifier, or \<^verbatim>\<open>undefined\<close>.
\<close>

definition find_member :: "string \<Rightarrow> (string \<times> member) list \<Rightarrow> string option" where
  "find_member ident ms = List.find (\<lambda>j. getResourceFromJid j = Some ident) (map fst ms)"

definition not_found :: "string option \<Rightarrow> log_entry" where
  "not_found j = LogError (''Not found member for '' @ show_opt j @ '' in lobby room.'') None"

definition denyAccess :: "string \<Rightarrow> lobby \<Rightarrow> completion \<times> lobby" where
  "denyAccess ident s =
     (if \<not> isLobbySupported s \<or> \<not> isModerator s then (Normal, s)
      else
        case lobbyRoom s of
          None \<Rightarrow> (Throw TypeError, s)
        | Some r \<Rightarrow>
            (let found = find_member ident (members (rooms s r)) in
             if truthy found then (Normal, kick r (the found) s)
             else (Normal, logger (not_found found) s)))"

definition invite :: "string \<Rightarrow> string \<Rightarrow> builder" where
  "invite room_jid j =
     c ''invite'' [(''to'', j)]
       (c ''x'' [(''xmlns'', ''http://jabber.org/protocol/muc#user'')]
         (msg [(''to'', room_jid)]))"

definition approveAccess :: "string \<Rightarrow> lobby \<Rightarrow> completion \<times> lobby" where
  "approveAccess ident s =
     (if \<not> isLobbySupported s \<or> \<not> isModerator s then (Normal, s)
      else
        case lobbyRoom s of
          None \<Rightarrow> (Throw TypeError, s)
        | Some r \<Rightarrow>
            (let roomJid = find_member ident (members (rooms s r)) in
             if truthy roomJid then
               (case map_of (members (rooms s r)) (the roomJid) of
                  None \<Rightarrow> (Throw TypeError, s)
                | Some m \<Rightarrow>
                    (Normal, sendIQ (invite (roomjid s) (jid m)) Ignore (LogInviteError (jid m)) s))
             else (Normal, logger (not_found roomJid) s)))"

section \<open>The controller in its environment\<close>

text \<open>
  What can happen to a controller: a caller invokes one of its four operations, the
  transport answers a request, a room emits an event or passes on a presence node, a
  promise returned by a room settles, the main room's status changes, the lobby room's
  membership changes.  \<open>exec\<close> is the state after one of these; an exception ends the
  operation or the listener that raised it and leaves the state as it was at that
  moment.
\<close>

datatype input =
    EnableLobby "string option"
  | JoinLobbyRoom "string option" "string option" "string option"
  | DenyAccess string
  | ApproveAccess string
  | IqResult nat xml
  | IqError nat reason
  | RoomEmits nat room_event
  | MainRoomEmits room_event
  | PresenceReceived nat string presence_node string
  | ReturnedSettles nat outcome
  | MainRoomBecomes bool bool
  | MembersBecome nat "(string \<times> member) list"

fun exec :: "input \<Rightarrow> lobby \<Rightarrow> lobby" where
  "exec (EnableLobby password) s = snd (enableLobby password s)"
| "exec (JoinLobbyRoom displayName email password) s =
     snd (joinLobbyRoom displayName email password s)"
| "exec (DenyAccess ident) s = snd (denyAccess ident s)"
| "exec (ApproveAccess ident) s = snd (approveAccess ident s)"
| "exec (IqResult k res) s = iq_result k res s"
| "exec (IqError k e) s = iq_error k e s"
| "exec (RoomEmits r ev) s = snd (room_emits r ev s)"
| "exec (MainRoomEmits ev) s = snd (mainRoom_emits ev s)"
| "exec (PresenceReceived r cmd node frm) s = presence_received r cmd node frm s"
| "exec (ReturnedSettles n out) s = settle (Returned n) out s"
| "exec (MainRoomBecomes is_joined is_moderator) s =
     s\<lparr>joined := is_joined, isModerator := is_moderator\<rparr>"
| "exec (MembersBecome r ms) s = update_room r (\<lambda>room. room\<lparr>members := ms\<rparr>) s"

definition run :: "input list \<Rightarrow> lobby \<Rightarrow> lobby" where
  "run inputs s = fold exec inputs s"

text \<open>The inputs by which a caller asks for the lobby room to be joined.\<close>

fun asks_to_join :: "input \<Rightarrow> bool" where
  "asks_to_join (EnableLobby password) = True"
| "asks_to_join (JoinLobbyRoom displayName email password) = True"
| "asks_to_join i = False"

section \<open>Notions used to state the properties\<close>

text \<open>
  The membership map of the lobby room the controller refers to; there is none while
  \<^verbatim>\<open>this.lobbyRoom\<close> is undefined.
\<close>

definition lobby_members :: "lobby \<Rightarrow> (string \<times> member) list" where
  "lobby_members s = (case lobbyRoom s of None \<Rightarrow> [] | Some r \<Rightarrow> members (rooms s r))"

text \<open>
  A controller on which nothing has been registered yet: no lobby room, no request that
  waits for an answer, no listener, no reaction.
\<close>

definition untouched :: "lobby \<Rightarrow> bool" where
  "untouched s \<longleftrightarrow>
     lobbyRoom s = None \<and> iqs s = (\<lambda>k. None) \<and> mainListeners s = [] \<and> reactions s = []
     \<and> (\<forall>r. listeners (rooms s r) = [] \<and> presenceListeners (rooms s r) = [])"

text \<open>
  The presence nodes and the listeners of the lobby room when \<^verbatim>\<open>joinLobbyRoom\<close> returns:
  \<open>p\<close> is the promise of the call.
\<close>

definition nick_presence :: "string option \<Rightarrow> (string \<times> presence_node) list" where
  "nick_presence displayName =
     (if truthy displayName then
        [(''nick'', \<lparr>attributes = [(''xmlns'', ''http://jabber.org/protocol/nick'')],
                    node_value = the displayName\<rparr>)]
      else [])"

definition joined_lobby_room ::
  "string option \<Rightarrow> string option \<Rightarrow> bool \<Rightarrow> nat \<Rightarrow> chat_room" where
  "joined_lobby_room displayName email is_moderator p =
     \<lparr>members = [], presence = nick_presence displayName,
      listeners =
        (if is_moderator then [(MUC_MEMBER_JOINED, OnMemberJoined)] else [(KICKED, OnKicked)])
        @ [(MUC_JOINED, OnMucJoined p email is_moderator), (ROOM_JOIN_ERROR, Reject p),
           (ROOM_CONNECT_NOT_ALLOWED_ERROR, Reject p), (ROOM_CONNECT_ERROR, Reject p)],
      presenceListeners = (if is_moderator then [(EMAIL_COMMAND, OnEmailPresence)] else [])\<rparr>"

text \<open>A state without its promises and reactions: what settling a promise leaves alone.\<close>

definition besides_promises :: "lobby \<Rightarrow> lobby" where
  "besides_promises s = s\<lparr>promises := (\<lambda>p. None), reactions := []\<rparr>"

text \<open>
  What no later event undoes: rooms are only added, \<^verbatim>\<open>this.lobbyRoom\<close> stays assigned once
  it is, and the listeners of a room that exists stay as they are.
\<close>

definition extends :: "lobby \<Rightarrow> lobby \<Rightarrow> bool" where
  "extends s s' \<longleftrightarrow>
     nextRoom s \<le> nextRoom s'
     \<and> (lobbyRoom s \<noteq> None \<longrightarrow> lobbyRoom s' \<noteq> None)
     \<and> (\<forall>r < nextRoom s.
           listeners (rooms s' r) = listeners (rooms s r)
           \<and> presenceListeners (rooms s' r) = presenceListeners (rooms s r))"

text \<open>
  A presence seen in the lobby room: a participant joins, or a participant's e-mail
  presence node arrives.
\<close>

datatype lobby_presence =
    Joins string "string option" string bool "string option" "string option" "identity option"
  | Updates presence_node string

fun delivered :: "nat \<Rightarrow> lobby_presence \<Rightarrow> input" where
  "delivered r (Joins frm nick role hidden statsID status ident) =
     RoomEmits r (MemberJoined frm nick role hidden statsID status ident)"
| "delivered r (Updates node frm) = PresenceReceived r EMAIL_COMMAND node frm"

fun expected_notification :: "lobby_presence \<Rightarrow> notification" where
  "expected_notification (Joins frm nick role hidden statsID status ident) =
     MUC_LOBBY_MEMBER_JOINED (getResourceFromJid frm) nick
       (case ident of None \<Rightarrow> None | Some i \<Rightarrow> avatar i)"
| "expected_notification (Updates node frm) = MUC_LOBBY_MEMBER_UPDATED frm (node_value node)"

text \<open>The debug line of the invite listener.\<close>

definition approval_logged :: "string \<Rightarrow> string \<Rightarrow> string \<Rightarrow> log_entry" where
  "approval_logged roomJid frm txt =
     LogDebug (''Received approval to join '' @ roomJid @ '' '' @ frm @ '' '' @ txt)"

text \<open>
  What one invite listener does with an invite whose room identifier is the main room's,
  while \<^verbatim>\<open>this.lobbyRoom\<close> refers to the room \<open>r\<close>.
\<close>

definition accept_invite :: "nat \<Rightarrow> string \<Rightarrow> string \<Rightarrow> lobby \<Rightarrow> lobby" where
  "accept_invite r frm txt s =
     s\<lparr>trace := trace s @ [MainJoin None, Leave r],
       reactions := reactions s @ [(Returned (Suc (length (trace s))), Swallow)],
       logged := logged s @ [approval_logged (roomjid s) frm txt]\<rparr>"

text \<open>
  The listeners on the main room and the reactions as \<^verbatim>\<open>Lobby.js\<close> leaves them: every
  listener is the invite listener, and a promise returned by a room has only reactions
  that do nothing.
\<close>

fun swallowed :: "promise \<times> reaction \<Rightarrow> bool" where
  "swallowed (Returned k, x) = (x = Swallow)"
| "swallowed (Own p, x) = True"

definition orderly :: "lobby \<Rightarrow> bool" where
  "orderly s \<longleftrightarrow>
     list_all (\<lambda>l. l = (INVITE_MESSAGE_RECEIVED, OnInvite)) (mainListeners s)
     \<and> list_all swallowed (reactions s)"

text \<open>Listeners on the main room are only added, and an orderly state stays orderly.\<close>

definition listening :: "lobby \<Rightarrow> lobby \<Rightarrow> bool" where
  "listening s s' \<longleftrightarrow>
     length (mainListeners s) \<le> length (mainListeners s') \<and> (orderly s \<longrightarrow> orderly s')"

text \<open>The same listeners on the main room, the same lobby room.\<close>

definition same_ears :: "lobby \<Rightarrow> lobby \<Rightarrow> bool" where
  "same_ears s s' \<longleftrightarrow> mainListeners s' = mainListeners s \<and> lobbyRoom s' = lobbyRoom s"

text \<open>The inputs in which \<^verbatim>\<open>joinLobbyRoom\<close> can run.\<close>

fun may_join :: "input \<Rightarrow> bool" where
  "may_join (JoinLobbyRoom displayName email password) = True"
| "may_join (IqResult k res) = True"
| "may_join i = False"

text \<open>A field of a data form with its value.\<close>

definition field :: "string \<Rightarrow> string \<Rightarrow> xml" where
  "field var v = Elem ''field'' [(''var'', var)] [Elem ''value'' [] [Text v]]"

text \<open>How the lobby room reports the end of a join: the outcome of the join.\<close>

fun join_outcome :: "room_event \<Rightarrow> outcome option" where
  "join_outcome MucJoined = Some Resolved"
| "join_outcome (RoomJoinError e) = Some (Rejected e)"
| "join_outcome (RoomConnectNotAllowedError e) = Some (Rejected e)"
| "join_outcome (RoomConnectError e) = Some (Rejected e)"
| "join_outcome ev = None"

text \<open>
  The state after \<^verbatim>\<open>enableLobby\<close> and the answer \<open>res\<close> to its query, and the state
  after the answer \<open>res'\<close> to the request sent next.
\<close>

definition form_answered :: "string option \<Rightarrow> xml \<Rightarrow> lobby \<Rightarrow> lobby" where
  "form_answered password res s = iq_result (nextIq s) res (snd (enableLobby password s))"

definition submit_answered :: "string option \<Rightarrow> xml \<Rightarrow> xml \<Rightarrow> lobby \<Rightarrow> lobby" where
  "submit_answered password res res' s =
     iq_result (Suc (nextIq s)) res' (form_answered password res s)"

subsection \<open>Example states\<close>

text \<open>A moderator in the main room, on a backend with a lobby component.\<close>

definition moderator_start :: lobby where
  "moderator_start = constructor (Some ''lobby.example'') ''room1@conference.example'' True True"

text \<open>A participant who is not in the main room, on a backend with a lobby component.\<close>

definition participant_example :: lobby where
  "participant_example =
     constructor (Some ''lobby.example'') ''room1@conference.example'' False False"

text \<open>
  A moderator of \<^verbatim>\<open>room1@conference.example\<close> who has joined the lobby room, in which
  \<^verbatim>\<open>alice@example.com/res123\<close> waits as \<^verbatim>\<open>room1@lobby.example/res123\<close>.
\<close>

definition moderator_example :: lobby where
  "moderator_example =
     run [JoinLobbyRoom None None None,
          MembersBecome 0
            [(''room1@lobby.example/res123'', \<lparr>jid = ''alice@example.com/res123''\<rparr>)]]
       (constructor (Some ''lobby.example'') ''room1@conference.example'' True True)"

text \<open>A moderator on a backend without a lobby component.\<close>

definition unsupported_example :: lobby where
  "unsupported_example = constructor None ''room1@conference.example'' True True"

text \<open>A moderator on whose controller nobody has asked to join the lobby room.\<close>

definition fresh_moderator_example :: lobby where
  "fresh_moderator_example =
     run [MainRoomBecomes True True, DenyAccess ''res123'']
       (constructor (Some ''lobby.example'') ''room1@conference.example'' False False)"

text \<open>
  Answers to the query for the configuration form: one with the members-only field, one
  without; and the (empty) result that answers a submission.
\<close>

definition members_only_form :: xml where
  "members_only_form =
     Elem ''iq'' [(''type'', ''result'')]
       [Elem ''query'' [(''xmlns'', ''http://jabber.org/protocol/muc#owner'')]
          [Elem ''x'' [(''xmlns'', ''jabber:x:data''), (''type'', ''form'')]
             [Elem ''field'' [(''var'', ''muc#roomconfig_roomname'')] [],
              Elem ''field'' [(''var'', ''muc#roomconfig_membersonly''), (''type'', ''boolean'')]
                [Elem ''value'' [] [Text ''0'']]]]]"

definition plain_form :: xml where
  "plain_form =
     Elem ''iq'' [(''type'', ''result'')]
       [Elem ''query'' [(''xmlns'', ''http://jabber.org/protocol/muc#owner'')]
          [Elem ''x'' [(''xmlns'', ''jabber:x:data''), (''type'', ''form'')]
             [Elem ''field'' [(''var'', ''muc#roomconfig_roomname'')] []]]]"

definition empty_result :: xml where
  "empty_result = Elem ''iq'' [(''type'', ''result'')] []"

section \<open>Helper facts\<close>

lemmas call_defs = call_def logger_def update_room_def sendIQ_def createRoom_def
  removeFromPresence_def addToPresence_def sendPresence_def addEventListener_def
  addPresenceListener_def join_def leave_def clean_def kick_def mainRoom_join_def
  mainRoom_addEventListener_def emit_def

lemmas promise_defs = new_promise_def promise_reject_def settle_own_def is_settled_def
  settle_def attach_def

subsection \<open>Looking a member up\<close>

lemma find_Some_holds: "List.find P xs = Some x \<Longrightarrow> x \<in> set xs \<and> P x"
  by (induction xs) (auto split: if_splits)

lemma resource_nonempty: "getResourceFromJid j = Some ident \<Longrightarrow> j \<noteq> []"
  by (auto simp: getResourceFromJid_def split: if_splits)

lemma find_member_Some:
  assumes "find_member ident ms = Some j"
  shows "j \<in> fst ` set ms" and "getResourceFromJid j = Some ident" and "j \<noteq> []"
    and "\<exists>m. map_of ms j = Some m"
proof -
  from assms have *: "j \<in> set (map fst ms) \<and> getResourceFromJid j = Some ident"
    unfolding find_member_def by (rule find_Some_holds)
  then show "j \<in> fst ` set ms" and "getResourceFromJid j = Some ident" by simp_all
  from * show "j \<noteq> []" by (simp add: resource_nonempty)
  from * have "j \<in> dom (map_of ms)" by (simp add: dom_map_of_conv_image_fst)
  then show "\<exists>m. map_of ms j = Some m" by blast
qed

lemma find_member_None:
  "find_member ident ms = None \<longleftrightarrow> (\<forall>j \<in> fst ` set ms. getResourceFromJid j \<noteq> Some ident)"
  unfolding find_member_def by (auto simp: find_None_iff)

lemma find_member_exists:
  assumes "\<exists>k \<in> fst ` set ms. getResourceFromJid k = Some ident"
  shows "\<exists>k. find_member ident ms = Some k"
proof (cases "find_member ident ms")
  case None
  with assms show ?thesis by (simp add: find_member_None)
qed simp

subsection \<open>\<^verbatim>\<open>denyAccess\<close> and \<^verbatim>\<open>approveAccess\<close>, case by case\<close>

lemma tree_invite:
  "tree (invite rj j) =
     Elem ''message'' [(''to'', rj), (''xmlns'', ''jabber:client'')]
       [Elem ''x'' [(''xmlns'', ''http://jabber.org/protocol/muc#user'')]
          [Elem ''invite'' [(''to'', j)] []]]"
  by (simp add: invite_def msg_def client_ns_def)

lemma access_not_moderator:
  "\<not> isModerator s \<Longrightarrow> denyAccess ident s = (Normal, s) \<and> approveAccess ident s = (Normal, s)"
  by (simp add: denyAccess_def approveAccess_def)

lemma access_no_lobby_room:
  assumes "lobbyRoom s = None" and "isLobbySupported s" and "isModerator s"
  shows "denyAccess ident s = (Throw TypeError, s) \<and> approveAccess ident s = (Throw TypeError, s)"
  using assms by (simp add: denyAccess_def approveAccess_def)

lemma access_no_member:
  assumes "find_member ident (lobby_members s) = None"
  shows "trace (snd (denyAccess ident s)) = trace s"
    and "(snd (denyAccess ident s))\<lparr>logged := logged s\<rparr> = s"
    and "trace (snd (approveAccess ident s)) = trace s"
    and "(snd (approveAccess ident s))\<lparr>logged := logged s\<rparr> = s"
  using assms
  by (auto simp: denyAccess_def approveAccess_def lobby_members_def truthy_def logger_def
      split: option.splits)

lemma access_member:
  assumes "isLobbySupported s" and "isModerator s" and "lobbyRoom s = Some r"
    and "find_member ident (members (rooms s r)) = Some k"
  shows "denyAccess ident s = (Normal, s\<lparr>trace := trace s @ [Kick r k]\<rparr>)"
    and "\<exists>m. map_of (members (rooms s r)) k = Some m \<and>
         approveAccess ident s =
           (Normal, sendIQ (invite (roomjid s) (jid m)) Ignore (LogInviteError (jid m)) s)"
proof -
  from find_member_Some[OF assms(4)] obtain m where
    k: "k \<noteq> []" and m: "map_of (members (rooms s r)) k = Some m" by blast
  from assms k show "denyAccess ident s = (Normal, s\<lparr>trace := trace s @ [Kick r k]\<rparr>)"
    by (simp add: denyAccess_def truthy_def kick_def call_def)
  from assms k m show "\<exists>m. map_of (members (rooms s r)) k = Some m \<and>
         approveAccess ident s =
           (Normal, sendIQ (invite (roomjid s) (jid m)) Ignore (LogInviteError (jid m)) s)"
    by (simp add: approveAccess_def truthy_def)
qed

subsection \<open>Settling promises\<close>

lemma besides_promises_proj:
  assumes "besides_promises s' = besides_promises s"
  shows "trace s' = trace s" and "lobbyRoom s' = lobbyRoom s" and "rooms s' = rooms s"
    and "nextRoom s' = nextRoom s" and "mainListeners s' = mainListeners s"
    and "iqs s' = iqs s" and "nextIq s' = nextIq s" and "nextPromise s' = nextPromise s"
    and "logged s' = logged s" and "roomjid s' = roomjid s" and "joined s' = joined s"
    and "isModerator s' = isModerator s"
    and "lobbyroomComponentAddress s' = lobbyroomComponentAddress s"
  using arg_cong[OF assms, of trace] arg_cong[OF assms, of lobbyRoom]
    arg_cong[OF assms, of rooms] arg_cong[OF assms, of nextRoom]
    arg_cong[OF assms, of mainListeners] arg_cong[OF assms, of iqs]
    arg_cong[OF assms, of nextIq] arg_cong[OF assms, of nextPromise]
    arg_cong[OF assms, of logged] arg_cong[OF assms, of roomjid]
    arg_cong[OF assms, of joined] arg_cong[OF assms, of isModerator]
    arg_cong[OF assms, of lobbyroomComponentAddress]
  by (simp_all add: besides_promises_def)

lemma run_reaction_besides: "besides_promises (run_reaction out a s) = besides_promises s"
  by (cases a) (simp_all add: besides_promises_def settle_own_def split: option.splits)

lemma fold_reactions_besides:
  "besides_promises (fold (run_reaction out) todo s) = besides_promises s"
  by (induction todo arbitrary: s) (simp_all add: run_reaction_besides)

lemma settle_besides: "besides_promises (settle q out s) = besides_promises s"
proof (cases "is_settled q s")
  case True
  then show ?thesis by (simp add: settle_def)
next
  case False
  have 1: "besides_promises (case q of Own p \<Rightarrow> settle_own p out s | Returned n \<Rightarrow> s)
           = besides_promises s"
    by (cases q) (simp_all add: besides_promises_def settle_own_def split: option.splits)
  have 2: "besides_promises (s1\<lparr>reactions := rs\<rparr>) = besides_promises s1" for s1 rs
    by (simp add: besides_promises_def)
  from False show ?thesis
    by (simp add: settle_def Let_def fold_reactions_besides 1 2)
qed

lemmas settle_proj = besides_promises_proj[OF settle_besides]

lemma attach_besides: "besides_promises (attach q r s) = besides_promises s"
proof -
  have "besides_promises (s\<lparr>reactions := rs\<rparr>) = besides_promises s" for rs
    by (simp add: besides_promises_def)
  then show ?thesis
    by (cases q) (simp_all add: attach_def run_reaction_besides split: option.splits)
qed

lemmas attach_proj = besides_promises_proj[OF attach_besides]

lemma run_reaction_keeps:
  "promises s p = Some v \<Longrightarrow> promises (run_reaction out a s) p = Some v"
  by (cases a) (auto simp: settle_own_def split: option.splits)

lemma fold_reactions_keeps:
  "promises s p = Some v \<Longrightarrow> promises (fold (run_reaction out) todo s) p = Some v"
  by (induction todo arbitrary: s) (simp_all add: run_reaction_keeps)

lemma settle_pending:
  "promises s p = None \<Longrightarrow> promises (settle (Own p) out s) p = Some out"
  by (simp add: settle_def is_settled_def Let_def settle_own_def fold_reactions_keeps)

lemma settle_keeps:
  assumes "promises s p = Some v"
  shows "promises (settle q out s) p = Some v"
proof (cases "is_settled q s")
  case True
  with assms show ?thesis by (simp add: settle_def)
next
  case False
  have "promises (case q of Own p' \<Rightarrow> settle_own p' out s | Returned n \<Rightarrow> s) p = Some v"
    using assms by (cases q) (auto simp: settle_own_def split: option.splits)
  then have "promises ((case q of Own p' \<Rightarrow> settle_own p' out s | Returned n \<Rightarrow> s)
               \<lparr>reactions := rs\<rparr>) p = Some v" for rs
    by simp
  with False show ?thesis
    by (simp add: settle_def Let_def fold_reactions_keeps)
qed

lemma settle_no_reactions: "reactions s = [] \<Longrightarrow> settle (Returned n) out s = s"
  by (simp add: settle_def is_settled_def)

lemma fold_reactions_forward:
  assumes "Forward p \<in> set todo" and "promises s p = None \<or> promises s p = Some out"
  shows "promises (fold (run_reaction out) todo s) p = Some out"
  using assms
proof (induction todo arbitrary: s)
  case (Cons a todo)
  show ?case
  proof (cases "a = Forward p")
    case True
    with Cons.prems(2) have "promises (run_reaction out a s) p = Some out"
      by (auto simp: settle_own_def)
    then show ?thesis by (simp add: fold_reactions_keeps)
  next
    case False
    with Cons.prems(2) have "promises (run_reaction out a s) p = None
                            \<or> promises (run_reaction out a s) p = Some out"
      by (cases a) (auto simp: settle_own_def split: option.splits)
    moreover from False Cons.prems(1) have "Forward p \<in> set todo" by simp
    ultimately show ?thesis using Cons.IH by simp
  qed
qed simp

lemma settle_forwards:
  assumes "promises s q = None" and "(Own q, Forward p) \<in> set (reactions s)"
    and "promises s p = None" and "p \<noteq> q"
  shows "promises (settle (Own q) out s) p = Some out"
proof -
  from assms(2) have "Forward p \<in> set (map snd (filter (\<lambda>(q', r). q' = Own q) (reactions s)))"
    by force
  then show ?thesis
    using assms(1,3,4)
    by (simp add: settle_def is_settled_def Let_def settle_own_def fold_reactions_forward)
qed

lemma run_reaction_reactions: "reactions (run_reaction out a s) = reactions s"
  by (cases a) (simp_all add: settle_own_def split: option.splits)

lemma fold_reactions_reactions: "reactions (fold (run_reaction out) todo s) = reactions s"
  by (induction todo arbitrary: s) (simp_all add: run_reaction_reactions)

lemma settle_reactions:
  "reactions (settle q out s) =
     (if is_settled q s then reactions s else filter (\<lambda>(q', x). q' \<noteq> q) (reactions s))"
proof -
  have "reactions (case q of Own p \<Rightarrow> settle_own p out s | Returned n \<Rightarrow> s) = reactions s"
    by (cases q) (simp_all add: settle_own_def split: option.splits)
  then show ?thesis
    by (simp add: settle_def Let_def fold_reactions_reactions)
qed

lemma fold_swallowed:
  "list_all swallowed rs \<Longrightarrow>
   fold (run_reaction out) (map snd (filter (\<lambda>(q', x). q' = Returned k) rs)) s = s"
  by (induction rs) auto

lemma settle_returned_orderly:
  assumes "orderly s"
  shows "settle (Returned k) out s =
           s\<lparr>reactions := filter (\<lambda>(q, x). q \<noteq> Returned k) (reactions s)\<rparr>"
proof -
  from assms have "list_all swallowed (reactions s)" by (simp add: orderly_def)
  from fold_swallowed[OF this] show ?thesis
    by (simp add: settle_def is_settled_def Let_def)
qed

subsection \<open>The state after \<^verbatim>\<open>joinLobbyRoom\<close>\<close>

lemma joinLobbyRoom_fast:
  assumes "truthy password" and "\<not> (joined s \<and> isModerator s)"
  shows "joinLobbyRoom displayName email password s = mainRoom_join password s"
  using assms by (simp add: joinLobbyRoom_def)

lemma joinLobbyRoom_lobby:
  assumes "\<not> truthy password \<or> (joined s \<and> isModerator s)"
  shows "joinLobbyRoom displayName email password s =
     (Own (nextPromise s),
      s\<lparr>lobbyRoom := Some (nextRoom s),
        rooms := (rooms s)(nextRoom s :=
                   joined_lobby_room displayName email (joined s \<and> isModerator s) (nextPromise s)),
        nextRoom := Suc (nextRoom s),
        mainListeners := mainListeners s @
           (if joined s \<and> isModerator s then [] else [(INVITE_MESSAGE_RECEIVED, OnInvite)]),
        promises := (promises s)(nextPromise s := None),
        nextPromise := Suc (nextPromise s),
        trace := trace s @
           [CreateRoom (getNodeFromJid (roomjid s))
              \<lparr>disableDiscoInfo = True, disableFocus = True,
               customDomain = lobbyroomComponentAddress s\<rparr> (nextRoom s),
            Join (nextRoom s)]\<rparr>)"
  using assms
  by (cases displayName)
     (auto simp: joinLobbyRoom_def Let_def call_defs new_promise_def joined_lobby_room_def
        nick_presence_def empty_room_def truthy_def)

lemma joinLobbyRoom_participant:
  assumes "\<not> (joined s \<and> isModerator s)" and "\<not> truthy password"
  shows "joinLobbyRoom displayName email password s =
     (Own (nextPromise s),
      s\<lparr>lobbyRoom := Some (nextRoom s),
        rooms := (rooms s)(nextRoom s :=
                   joined_lobby_room displayName email False (nextPromise s)),
        nextRoom := Suc (nextRoom s),
        mainListeners := mainListeners s @ [(INVITE_MESSAGE_RECEIVED, OnInvite)],
        promises := (promises s)(nextPromise s := None),
        nextPromise := Suc (nextPromise s),
        trace := trace s @
           [CreateRoom (getNodeFromJid (roomjid s))
              \<lparr>disableDiscoInfo = True, disableFocus = True,
               customDomain = lobbyroomComponentAddress s\<rparr> (nextRoom s),
            Join (nextRoom s)]\<rparr>)"
  using assms joinLobbyRoom_lobby[of password s displayName email] by auto

lemma joinLobbyRoom_own: "fst (joinLobbyRoom None None None s) = Own (nextPromise s)"
proof -
  have "\<not> truthy None \<or> (joined s \<and> isModerator s)" by (simp add: truthy_def)
  from joinLobbyRoom_lobby[OF this] show ?thesis by simp
qed

subsection \<open>Before anybody asks to join\<close>

lemma untouched_constructor: "untouched (constructor a rj jn md)"
  by (simp add: untouched_def constructor_def empty_room_def)

lemma untouched_exec:
  assumes "untouched s" and "\<not> asks_to_join i"
  shows "untouched (exec i s)"
proof (cases i)
  case (DenyAccess ident)
  with assms show ?thesis
    by (auto simp: untouched_def denyAccess_def)
next
  case (ApproveAccess ident)
  with assms show ?thesis
    by (auto simp: untouched_def approveAccess_def)
next
  case (IqResult k res)
  with assms show ?thesis by (simp add: untouched_def iq_result_def)
next
  case (IqError k e)
  with assms show ?thesis by (simp add: untouched_def iq_error_def)
next
  case (RoomEmits r ev)
  with assms show ?thesis by (simp add: untouched_def room_emits_def handlers_for_def)
next
  case (MainRoomEmits ev)
  with assms show ?thesis by (simp add: untouched_def mainRoom_emits_def handlers_for_def)
next
  case (PresenceReceived r cmd node frm)
  with assms show ?thesis by (simp add: untouched_def presence_received_def handlers_for_def)
next
  case (ReturnedSettles n out)
  with assms show ?thesis by (simp add: untouched_def settle_no_reactions)
next
  case (MainRoomBecomes j m)
  with assms show ?thesis by (simp add: untouched_def)
next
  case (MembersBecome r ms)
  with assms show ?thesis by (simp add: untouched_def update_room_def)
qed (use assms in simp_all)

lemma untouched_run:
  "untouched s \<Longrightarrow> \<forall>i \<in> set inputs. \<not> asks_to_join i \<Longrightarrow> untouched (run inputs s)"
  unfolding run_def by (induction inputs arbitrary: s) (simp_all add: untouched_exec)

subsection \<open>What every step keeps\<close>

lemma extends_refl: "extends s s"
  by (simp add: extends_def)

lemma extends_trans: "extends s s1 \<Longrightarrow> extends s1 s2 \<Longrightarrow> extends s s2"
  by (auto simp: extends_def)

lemma extends_same:
  "rooms s' = rooms s \<Longrightarrow> nextRoom s' = nextRoom s \<Longrightarrow> lobbyRoom s' = lobbyRoom s
   \<Longrightarrow> extends s s'"
  by (simp add: extends_def)

lemma extends_call: "extends s s1 \<Longrightarrow> extends s (call e s1)"
  by (simp add: extends_def call_def)

lemma extends_logger: "extends s s1 \<Longrightarrow> extends s (logger e s1)"
  by (simp add: extends_def logger_def)

lemma extends_settle: "extends s s1 \<Longrightarrow> extends s (settle q out s1)"
  by (simp add: extends_def settle_proj)

lemma extends_attach: "extends s s1 \<Longrightarrow> extends s (attach q r s1)"
  by (simp add: extends_def attach_proj)

lemma extends_presence:
  "extends s s1 \<Longrightarrow> extends s (removeFromPresence r k s1)"
  "extends s s1 \<Longrightarrow> extends s (addToPresence r k n s1)"
  "extends s s1 \<Longrightarrow> extends s (sendPresence r s1)"
  by (simp_all add: extends_def removeFromPresence_def addToPresence_def sendPresence_def
      update_room_def call_def)

lemma extends_sendIQ: "extends s s1 \<Longrightarrow> extends s (sendIQ st cb eb s1)"
  by (simp add: extends_def sendIQ_def call_def)

lemma extends_iqs: "extends s s1 \<Longrightarrow> extends s (s1\<lparr>iqs := x\<rparr>)"
  by (simp add: extends_def)

lemma joinLobbyRoom_extends: "extends s (snd (joinLobbyRoom displayName email password s))"
proof (cases "truthy password \<and> \<not> (joined s \<and> isModerator s)")
  case True
  then show ?thesis
    by (simp add: joinLobbyRoom_fast mainRoom_join_def call_def extends_def)
next
  case False
  then have "\<not> truthy password \<or> (joined s \<and> isModerator s)" by blast
  from joinLobbyRoom_lobby[OF this] show ?thesis
    by (simp add: extends_def)
qed

lemma extends_joinLobbyRoom:
  "extends s s1 \<Longrightarrow> extends s (snd (joinLobbyRoom displayName email password s1))"
  using extends_trans joinLobbyRoom_extends by blast

lemmas extends_step = extends_call extends_logger extends_settle extends_attach
  extends_presence extends_sendIQ extends_iqs extends_joinLobbyRoom

lemma run_handler_extends: "extends s (snd (run_handler h ev s))"
  by (cases h; cases ev)
     (auto simp: Let_def clean_def emit_def leave_def mainRoom_join_def
        split: option.splits prod.splits intro!: extends_step extends_refl)

lemma run_handlers_extends: "extends s (snd (run_handlers hs ev s))"
proof (induction hs arbitrary: s)
  case (Cons h hs)
  obtain c1 s1 where 1: "run_handler h ev s = (c1, s1)" by (cases "run_handler h ev s")
  then have e1: "extends s s1" using run_handler_extends[of s h ev] by simp
  show ?case
  proof (cases c1)
    case Normal
    with 1 e1 Cons.IH[of s1] show ?thesis by (auto intro: extends_trans)
  next
    case (Throw e)
    with 1 e1 show ?thesis by simp
  qed
qed (simp add: extends_refl)

lemma presence_handlers_extends:
  "extends s s1 \<Longrightarrow> extends s (fold (\<lambda>h. run_presence_handler h node frm) hs s1)"
proof (induction hs arbitrary: s1)
  case (Cons h hs)
  have "extends s (run_presence_handler h node frm s1)"
    using Cons.prems by (cases h) (simp_all add: emit_def extends_call)
  then show ?case using Cons.IH by simp
qed simp

lemma run_callback_extends: "extends s (run_callback cb res s)"
proof (cases cb)
  case (ConfigFormReceived p password)
  then show ?thesis by (auto intro!: extends_step extends_refl)
next
  case (ConfigSubmitted p)
  have "extends s (attach (fst (joinLobbyRoom None None None s)) (Forward p)
                     (snd (joinLobbyRoom None None None s)))"
    by (intro extends_step extends_refl)
  with ConfigSubmitted show ?thesis by (simp add: split_def Let_def)
next
  case Ignore
  then show ?thesis by (simp add: extends_refl)
qed

lemma run_errback_extends: "extends s (run_errback eb e s)"
  by (cases eb) (auto intro!: extends_step extends_refl)

lemma exec_extends: "extends s (exec i s)"
proof (cases i)
  case (EnableLobby password)
  then show ?thesis
    by (auto simp: enableLobby_def promise_reject_def new_promise_def extends_def sendIQ_def
        call_def)
next
  case (JoinLobbyRoom displayName email password)
  then show ?thesis by (simp add: joinLobbyRoom_extends)
next
  case (DenyAccess ident)
  then show ?thesis
    by (auto simp: denyAccess_def Let_def kick_def split: option.splits
        intro!: extends_step extends_refl)
next
  case (ApproveAccess ident)
  then show ?thesis
    by (auto simp: approveAccess_def Let_def split: option.splits
        intro!: extends_step extends_refl)
next
  case (IqResult k res)
  have "extends s (run_callback cb res' (s\<lparr>iqs := x\<rparr>))" for cb res' x
    using extends_trans[OF extends_iqs[OF extends_refl] run_callback_extends] .
  with IqResult show ?thesis
    by (auto simp: iq_result_def extends_refl split: option.splits)
next
  case (IqError k e)
  have "extends s (run_errback eb e' (s\<lparr>iqs := x\<rparr>))" for eb e' x
    using extends_trans[OF extends_iqs[OF extends_refl] run_errback_extends] .
  with IqError show ?thesis
    by (auto simp: iq_error_def extends_refl split: option.splits)
next
  case (RoomEmits r ev)
  then show ?thesis by (simp add: room_emits_def run_handlers_extends)
next
  case (MainRoomEmits ev)
  then show ?thesis by (simp add: mainRoom_emits_def run_handlers_extends)
next
  case (PresenceReceived r cmd node frm)
  then show ?thesis by (simp add: presence_received_def presence_handlers_extends extends_refl)
next
  case (ReturnedSettles n out)
  then show ?thesis by (simp add: extends_settle extends_refl)
next
  case (MainRoomBecomes j m)
  then show ?thesis by (simp add: extends_def)
next
  case (MembersBecome r ms)
  then show ?thesis by (simp add: extends_def update_room_def)
qed

lemma run_extends: "extends s (run inputs s)"
  unfolding run_def
proof (induction inputs arbitrary: s)
  case (Cons i inputs)
  from exec_extends[of s i] Cons.IH[of "exec i s"] show ?case
    by (auto intro: extends_trans)
qed (simp add: extends_refl)

subsection \<open>Listeners on the main room and reactions\<close>

lemma list_all_filter_keep: "list_all P xs \<Longrightarrow> list_all P (filter Q xs)"
  by (induction xs) simp_all

lemma invite_handlers:
  "list_all (\<lambda>l. l = (e, h)) ls \<Longrightarrow> handlers_for e ls = replicate (length ls) h"
  by (induction ls) (simp_all add: handlers_for_def)

lemma listening_refl: "listening s s"
  by (simp add: listening_def)

lemma listening_trans: "listening s s1 \<Longrightarrow> listening s1 s2 \<Longrightarrow> listening s s2"
  by (simp add: listening_def)

lemma listening_same:
  assumes "listening s s1" and "mainListeners s2 = mainListeners s1"
    and "reactions s2 = reactions s1"
  shows "listening s s2"
  using assms by (simp add: listening_def orderly_def)

lemma listening_call: "listening s s1 \<Longrightarrow> listening s (call e s1)"
  by (erule listening_same) (simp_all add: call_def)

lemma listening_logger: "listening s s1 \<Longrightarrow> listening s (logger e s1)"
  by (erule listening_same) (simp_all add: logger_def)

lemma listening_update_room: "listening s s1 \<Longrightarrow> listening s (update_room r f s1)"
  by (erule listening_same) (simp_all add: update_room_def)

lemma listening_presence:
  "listening s s1 \<Longrightarrow> listening s (removeFromPresence r k s1)"
  "listening s s1 \<Longrightarrow> listening s (addToPresence r k n s1)"
  "listening s s1 \<Longrightarrow> listening s (sendPresence r s1)"
  by (simp_all add: removeFromPresence_def addToPresence_def sendPresence_def
      listening_update_room listening_call)

lemma listening_sendIQ: "listening s s1 \<Longrightarrow> listening s (sendIQ st cb eb s1)"
  by (erule listening_same) (simp_all add: sendIQ_def call_def)

lemma listening_iqs: "listening s s1 \<Longrightarrow> listening s (s1\<lparr>iqs := x\<rparr>)"
  by (erule listening_same) simp_all

lemma listening_settle: "listening s s1 \<Longrightarrow> listening s (settle q out s1)"
  by (simp add: listening_def orderly_def settle_proj settle_reactions list_all_filter_keep)

lemma listening_run_reaction: "listening s s1 \<Longrightarrow> listening s (run_reaction out x s1)"
  by (erule listening_same)
     (simp_all add: run_reaction_reactions besides_promises_proj[OF run_reaction_besides])

lemma listening_attach_swallow: "listening s s1 \<Longrightarrow> listening s (attach q Swallow s1)"
  by (cases q) (simp_all add: attach_def listening_def orderly_def split: option.splits)

lemma listening_attach_own: "listening s s1 \<Longrightarrow> listening s (attach (Own p) x s1)"
proof (cases "promises s1 p")
  case None
  assume "listening s s1"
  with None show ?thesis by (simp add: attach_def listening_def orderly_def)
next
  case (Some out)
  assume "listening s s1"
  with Some listening_run_reaction[of s s1 out x] show ?thesis by (simp add: attach_def)
qed

lemma joinLobbyRoom_listening:
  "listening s (snd (joinLobbyRoom displayName email password s))"
proof (cases "truthy password \<and> \<not> (joined s \<and> isModerator s)")
  case True
  then show ?thesis
    by (simp add: joinLobbyRoom_fast mainRoom_join_def listening_call listening_refl)
next
  case False
  then have "\<not> truthy password \<or> (joined s \<and> isModerator s)" by blast
  from joinLobbyRoom_lobby[OF this] show ?thesis
    by (simp add: listening_def orderly_def)
qed

lemma listening_joinLobbyRoom:
  "listening s s1 \<Longrightarrow> listening s (snd (joinLobbyRoom displayName email password s1))"
  using listening_trans joinLobbyRoom_listening by blast

lemmas listening_step = listening_call listening_logger listening_presence
  listening_sendIQ listening_iqs listening_settle listening_attach_swallow
  listening_attach_own listening_joinLobbyRoom

lemma run_handler_listening: "listening s (snd (run_handler h ev s))"
  by (cases h; cases ev)
     (auto simp: Let_def clean_def emit_def leave_def mainRoom_join_def
        split: option.splits prod.splits intro!: listening_step listening_refl)

lemma run_handlers_listening: "listening s (snd (run_handlers hs ev s))"
proof (induction hs arbitrary: s)
  case (Cons h hs)
  obtain c1 s1 where 1: "run_handler h ev s = (c1, s1)" by (cases "run_handler h ev s")
  then have e1: "listening s s1" using run_handler_listening[of s h ev] by simp
  show ?case
  proof (cases c1)
    case Normal
    with 1 e1 Cons.IH[of s1] show ?thesis by (auto intro: listening_trans)
  next
    case (Throw e)
    with 1 e1 show ?thesis by simp
  qed
qed (simp add: listening_refl)

lemma presence_handlers_listening:
  "listening s s1 \<Longrightarrow> listening s (fold (\<lambda>h. run_presence_handler h node frm) hs s1)"
proof (induction hs arbitrary: s1)
  case (Cons h hs)
  have "listening s (run_presence_handler h node frm s1)"
    using Cons.prems by (cases h) (simp_all add: emit_def listening_call)
  then show ?case using Cons.IH by simp
qed simp

lemma run_callback_listening: "listening s (run_callback cb res s)"
proof (cases cb)
  case (ConfigFormReceived p password)
  then show ?thesis by (auto intro!: listening_step listening_refl)
next
  case (ConfigSubmitted p)
  have "listening s (attach (Own (nextPromise s)) (Forward p)
                       (snd (joinLobbyRoom None None None s)))"
    by (intro listening_attach_own listening_joinLobbyRoom listening_refl)
  with ConfigSubmitted show ?thesis by (simp add: split_def Let_def joinLobbyRoom_own)
next
  case Ignore
  then show ?thesis by (simp add: listening_refl)
qed

lemma run_errback_listening: "listening s (run_errback eb e s)"
  by (cases eb) (auto intro!: listening_step listening_refl)

lemma exec_listening: "listening s (exec i s)"
proof (cases i)
  case (EnableLobby password)
  then show ?thesis
    by (simp add: enableLobby_def promise_reject_def new_promise_def listening_def orderly_def
        sendIQ_def call_def)
next
  case (JoinLobbyRoom displayName email password)
  then show ?thesis by (simp add: joinLobbyRoom_listening)
next
  case (DenyAccess ident)
  then show ?thesis
    by (auto simp: denyAccess_def Let_def kick_def split: option.splits
        intro!: listening_step listening_refl)
next
  case (ApproveAccess ident)
  then show ?thesis
    by (auto simp: approveAccess_def Let_def split: option.splits
        intro!: listening_step listening_refl)
next
  case (IqResult k res)
  have "listening s (run_callback cb res' (s\<lparr>iqs := x\<rparr>))" for cb res' x
    using listening_trans[OF listening_iqs[OF listening_refl] run_callback_listening] .
  with IqResult show ?thesis
    by (auto simp: iq_result_def listening_refl split: option.splits)
next
  case (IqError k e)
  have "listening s (run_errback eb e' (s\<lparr>iqs := x\<rparr>))" for eb e' x
    using listening_trans[OF listening_iqs[OF listening_refl] run_errback_listening] .
  with IqError show ?thesis
    by (auto simp: iq_error_def listening_refl split: option.splits)
next
  case (RoomEmits r ev)
  then show ?thesis by (simp add: room_emits_def run_handlers_listening)
next
  case (MainRoomEmits ev)
  then show ?thesis by (simp add: mainRoom_emits_def run_handlers_listening)
next
  case (PresenceReceived r cmd node frm)
  then show ?thesis
    by (simp add: presence_received_def presence_handlers_listening listening_refl)
next
  case (ReturnedSettles n out)
  then show ?thesis by (simp add: listening_settle listening_refl)
next
  case (MainRoomBecomes j m)
  then show ?thesis by (simp add: listening_def orderly_def)
next
  case (MembersBecome r ms)
  then show ?thesis by (simp add: listening_update_room listening_refl)
qed

lemma run_listening: "listening s (run inputs s)"
  unfolding run_def
proof (induction inputs arbitrary: s)
  case (Cons i inputs)
  from exec_listening[of s i] Cons.IH[of "exec i s"] show ?case
    by (auto intro: listening_trans)
qed (simp add: listening_refl)

lemma orderly_constructor: "orderly (constructor a rj jn md)"
  by (simp add: orderly_def constructor_def)

lemma orderly_run: "orderly (run inputs (constructor a rj jn md))"
  using run_listening[of "constructor a rj jn md" inputs] orderly_constructor
  by (simp add: listening_def)

subsection \<open>Steps in which \<^verbatim>\<open>joinLobbyRoom\<close> does not run\<close>

lemma same_ears_refl: "same_ears s s"
  by (simp add: same_ears_def)

lemma same_ears_trans: "same_ears s s1 \<Longrightarrow> same_ears s1 s2 \<Longrightarrow> same_ears s s2"
  by (simp add: same_ears_def)

lemma same_ears_call: "same_ears s s1 \<Longrightarrow> same_ears s (call e s1)"
  by (simp add: same_ears_def call_def)

lemma same_ears_logger: "same_ears s s1 \<Longrightarrow> same_ears s (logger e s1)"
  by (simp add: same_ears_def logger_def)

lemma same_ears_presence:
  "same_ears s s1 \<Longrightarrow> same_ears s (removeFromPresence r k s1)"
  "same_ears s s1 \<Longrightarrow> same_ears s (addToPresence r k n s1)"
  "same_ears s s1 \<Longrightarrow> same_ears s (sendPresence r s1)"
  by (simp_all add: same_ears_def removeFromPresence_def addToPresence_def sendPresence_def
      update_room_def call_def)

lemma same_ears_sendIQ: "same_ears s s1 \<Longrightarrow> same_ears s (sendIQ st cb eb s1)"
  by (simp add: same_ears_def sendIQ_def call_def)

lemma same_ears_iqs: "same_ears s s1 \<Longrightarrow> same_ears s (s1\<lparr>iqs := x\<rparr>)"
  by (simp add: same_ears_def)

lemma same_ears_settle: "same_ears s s1 \<Longrightarrow> same_ears s (settle q out s1)"
  by (simp add: same_ears_def settle_proj)

lemma same_ears_attach: "same_ears s s1 \<Longrightarrow> same_ears s (attach q x s1)"
  by (simp add: same_ears_def attach_proj)

lemmas same_ears_step = same_ears_call same_ears_logger same_ears_presence same_ears_sendIQ
  same_ears_iqs same_ears_settle same_ears_attach

lemma run_handler_same_ears: "same_ears s (snd (run_handler h ev s))"
  by (cases h; cases ev)
     (auto simp: Let_def clean_def emit_def leave_def mainRoom_join_def
        split: option.splits prod.splits intro!: same_ears_step same_ears_refl)

lemma run_handlers_same_ears: "same_ears s (snd (run_handlers hs ev s))"
proof (induction hs arbitrary: s)
  case (Cons h hs)
  obtain c1 s1 where 1: "run_handler h ev s = (c1, s1)" by (cases "run_handler h ev s")
  then have e1: "same_ears s s1" using run_handler_same_ears[of s h ev] by simp
  show ?case
  proof (cases c1)
    case Normal
    with 1 e1 Cons.IH[of s1] show ?thesis by (auto intro: same_ears_trans)
  next
    case (Throw e)
    with 1 e1 show ?thesis by simp
  qed
qed (simp add: same_ears_refl)

lemma presence_handlers_same_ears:
  "same_ears s s1 \<Longrightarrow> same_ears s (fold (\<lambda>h. run_presence_handler h node frm) hs s1)"
proof (induction hs arbitrary: s1)
  case (Cons h hs)
  have "same_ears s (run_presence_handler h node frm s1)"
    using Cons.prems by (cases h) (simp_all add: emit_def same_ears_call)
  then show ?case using Cons.IH by simp
qed simp

lemma run_errback_same_ears: "same_ears s (run_errback eb e s)"
  by (cases eb) (auto intro!: same_ears_step same_ears_refl)

lemma exec_same_ears:
  assumes "\<not> may_join i"
  shows "same_ears s (exec i s)"
proof (cases i)
  case (EnableLobby password)
  then show ?thesis
    by (simp add: enableLobby_def promise_reject_def new_promise_def same_ears_def sendIQ_def
        call_def)
next
  case (DenyAccess ident)
  then show ?thesis
    by (auto simp: denyAccess_def Let_def kick_def split: option.splits
        intro!: same_ears_step same_ears_refl)
next
  case (ApproveAccess ident)
  then show ?thesis
    by (auto simp: approveAccess_def Let_def split: option.splits
        intro!: same_ears_step same_ears_refl)
next
  case (IqError k e)
  have "same_ears s (run_errback eb e' (s\<lparr>iqs := x\<rparr>))" for eb e' x
    using same_ears_trans[OF same_ears_iqs[OF same_ears_refl] run_errback_same_ears] .
  with IqError show ?thesis
    by (auto simp: iq_error_def same_ears_refl split: option.splits)
next
  case (RoomEmits r ev)
  then show ?thesis by (simp add: room_emits_def run_handlers_same_ears)
next
  case (MainRoomEmits ev)
  then show ?thesis by (simp add: mainRoom_emits_def run_handlers_same_ears)
next
  case (PresenceReceived r cmd node frm)
  then show ?thesis
    by (simp add: presence_received_def presence_handlers_same_ears same_ears_refl)
next
  case (ReturnedSettles n out)
  then show ?thesis by (simp add: same_ears_settle same_ears_refl)
next
  case (MainRoomBecomes j m)
  then show ?thesis by (simp add: same_ears_def)
next
  case (MembersBecome r ms)
  then show ?thesis by (simp add: same_ears_def update_room_def)
qed (use assms in simp_all)

lemma run_same_ears:
  "\<forall>i \<in> set inputs. \<not> may_join i \<Longrightarrow> same_ears s (run inputs s)"
  unfolding run_def
proof (induction inputs arbitrary: s)
  case (Cons i inputs)
  from Cons.prems have "same_ears s (exec i s)" by (simp add: exec_same_ears)
  moreover from Cons.prems have "same_ears (exec i s) (fold exec inputs (exec i s))"
    by (simp add: Cons.IH)
  ultimately show ?case by (auto intro: same_ears_trans)
qed (simp add: same_ears_refl)

subsection \<open>The listeners, one at a time\<close>

lemma moderator_listeners_notify:
  assumes "handlers_for MUC_MEMBER_JOINED (listeners (rooms s r)) = [OnMemberJoined]"
    and "handlers_for EMAIL_COMMAND (presenceListeners (rooms s r)) = [OnEmailPresence]"
  shows "exec (delivered r ev) s = s\<lparr>trace := trace s @ [Emit (expected_notification ev)]\<rparr>"
  using assms
  by (cases ev) (simp_all add: room_emits_def presence_received_def emit_def call_def)

lemma kicked_listener:
  assumes "handlers_for KICKED (listeners (rooms s r)) = [OnKicked]"
    and "lobbyRoom s = Some r'"
  shows "room_emits r (Kicked True) s =
           (Normal, s\<lparr>trace := trace s @ [Emit MUC_DENIED_ACCESS, Clean r']\<rparr>)"
    and "room_emits r (Kicked False) s = (Normal, s)"
  using assms by (simp_all add: room_emits_def emit_def clean_def call_def)

lemma join_reported:
  assumes "join_outcome ev = Some out"
    and "listeners (rooms s r) = listeners (joined_lobby_room None None is_moderator p)"
  shows "room_emits r ev s = (Normal, settle (Own p) out s)"
  using assms
  by (cases ev) (simp_all add: room_emits_def joined_lobby_room_def handlers_for_def)

lemma invite_accepted:
  "lobbyRoom s = Some r \<Longrightarrow>
   run_handler OnInvite (InviteMessageReceived (roomjid s) frm txt) s =
     (Normal, accept_invite r frm txt s)"
  by (simp add: Let_def logger_def mainRoom_join_def leave_def call_def attach_def
      approval_logged_def accept_invite_def)

lemma invite_ignored:
  "roomJid \<noteq> roomjid s \<Longrightarrow>
   run_handler OnInvite (InviteMessageReceived roomJid frm txt) s =
     (Normal, s\<lparr>logged := logged s @ [approval_logged roomJid frm txt]\<rparr>)"
  by (simp add: Let_def logger_def approval_logged_def)

lemma invites_accepted:
  "lobbyRoom s = Some r \<Longrightarrow>
   run_handlers (replicate n OnInvite) (InviteMessageReceived (roomjid s) frm txt) s =
     (Normal, (accept_invite r frm txt ^^ n) s)"
proof (induction n arbitrary: s)
  case (Suc n)
  let ?s' = "accept_invite r frm txt s"
  have "lobbyRoom ?s' = Some r" and rj: "roomjid ?s' = roomjid s"
    using Suc.prems by (simp_all add: accept_invite_def)
  from Suc.IH[OF this(1)] rj have
    "run_handlers (replicate n OnInvite) (InviteMessageReceived (roomjid s) frm txt) ?s' =
       (Normal, (accept_invite r frm txt ^^ n) ?s')"
    by simp
  then show ?case
    by (simp add: invite_accepted[OF Suc.prems] funpow_swap1 del: run_handler.simps)
qed simp

lemma invites_ignored:
  "roomJid \<noteq> roomjid s \<Longrightarrow>
   run_handlers (replicate n OnInvite) (InviteMessageReceived roomJid frm txt) s =
     (Normal, s\<lparr>logged := logged s @ replicate n (approval_logged roomJid frm txt)\<rparr>)"
proof (induction n arbitrary: s)
  case (Suc n)
  let ?s' = "s\<lparr>logged := logged s @ [approval_logged roomJid frm txt]\<rparr>"
  from Suc.prems have "roomJid \<noteq> roomjid ?s'" by simp
  from Suc.IH[OF this] show ?case
    by (simp add: invite_ignored[OF Suc.prems] del: run_handler.simps)
qed simp

lemma concat_replicate_snoc: "concat (replicate n xs) @ xs = xs @ concat (replicate n xs)"
  by (induction n) simp_all

lemma accepted_trace:
  "trace ((accept_invite r frm txt ^^ n) s) =
     trace s @ concat (replicate n [MainJoin None, Leave r])"
proof (induction n)
  case (Suc n)
  have "concat (replicate n [MainJoin None, Leave r]) @ [MainJoin None, Leave r] =
        [MainJoin None, Leave r] @ concat (replicate n [MainJoin None, Leave r])"
    by (rule concat_replicate_snoc)
  with Suc show ?case by (simp add: accept_invite_def)
qed simp

lemma accepted_rest:
  "promises ((accept_invite r frm txt ^^ n) s) = promises s"
  "lobbyRoom ((accept_invite r frm txt ^^ n) s) = lobbyRoom s"
  "rooms ((accept_invite r frm txt ^^ n) s) = rooms s"
  "mainListeners ((accept_invite r frm txt ^^ n) s) = mainListeners s"
  by (induction n) (simp_all add: accept_invite_def)

subsection \<open>\<^verbatim>\<open>enableLobby\<close>, step by step\<close>

lemma tree_config_query:
  "tree (config_query rj) =
     Elem ''iq'' [(''to'', rj), (''type'', ''get''), (''xmlns'', ''jabber:client'')]
       [Elem ''query'' [(''xmlns'', ''http://jabber.org/protocol/muc#owner'')] []]"
  by (simp add: config_query_def iq_def client_ns_def)

lemma tree_formsubmit:
  "tree (formsubmit rj password) =
     Elem ''iq'' [(''to'', rj), (''type'', ''set''), (''xmlns'', ''jabber:client'')]
       [Elem ''query'' [(''xmlns'', ''http://jabber.org/protocol/muc#owner'')]
          [Elem ''x'' [(''xmlns'', ''jabber:x:data''), (''type'', ''submit'')]
             ([field ''FORM_TYPE'' ''http://jabber.org/protocol/muc#roomconfig'',
               field ''muc#roomconfig_membersonly'' ''true'']
              @ (if truthy password then [field ''muc#roomconfig_lobbypassword'' (the password)]
                 else []))]]"
  by (cases password)
     (simp_all add: formsubmit_def iq_def client_ns_def field_def truthy_def Let_def)

lemma enableLobby_supported:
  assumes "isLobbySupported s"
  shows "enableLobby password s =
     (Own (nextPromise s),
      s\<lparr>promises := (promises s)(nextPromise s := None),
        nextPromise := Suc (nextPromise s),
        trace := trace s @ [SendIQ (tree (config_query (roomjid s)))],
        iqs := (iqs s)(nextIq s := Some (ConfigFormReceived (nextPromise s) password,
                                          RejectWith (nextPromise s))),
        nextIq := Suc (nextIq s)\<rparr>)"
  using assms by (simp add: enableLobby_def new_promise_def sendIQ_def call_def)

lemma form_answered_without_field:
  assumes "isLobbySupported s" and "find_membersonly res = []"
  shows "form_answered password res s =
     settle (Own (nextPromise s)) (Rejected (Error ''Setting members only room not supported!''))
      (s\<lparr>promises := (promises s)(nextPromise s := None),
         nextPromise := Suc (nextPromise s),
         trace := trace s @ [SendIQ (tree (config_query (roomjid s)))],
         nextIq := Suc (nextIq s),
         iqs := (iqs s)(nextIq s := None)\<rparr>)"
  using assms by (simp add: form_answered_def enableLobby_supported iq_result_def)

lemma form_answered_with_field:
  assumes "isLobbySupported s" and "find_membersonly res \<noteq> []"
  shows "form_answered password res s =
      s\<lparr>promises := (promises s)(nextPromise s := None),
        nextPromise := Suc (nextPromise s),
        trace := trace s @ [SendIQ (tree (config_query (roomjid s))),
                            SendIQ (tree (formsubmit (roomjid s) password))],
        iqs := (iqs s)(nextIq s := None,
                       Suc (nextIq s) := Some (ConfigSubmitted (nextPromise s),
                                                RejectWith (nextPromise s))),
        nextIq := Suc (Suc (nextIq s))\<rparr>"
  using assms
  by (simp add: form_answered_def enableLobby_supported iq_result_def sendIQ_def call_def)

lemma submit_answered_state:
  assumes "isLobbySupported s" and "find_membersonly res \<noteq> []"
  shows "submit_answered password res res' s =
      s\<lparr>lobbyRoom := Some (nextRoom s),
        rooms := (rooms s)(nextRoom s :=
                   joined_lobby_room None None (joined s \<and> isModerator s) (Suc (nextPromise s))),
        nextRoom := Suc (nextRoom s),
        mainListeners := mainListeners s @
           (if joined s \<and> isModerator s then [] else [(INVITE_MESSAGE_RECEIVED, OnInvite)]),
        promises := (promises s)(nextPromise s := None, Suc (nextPromise s) := None),
        nextPromise := Suc (Suc (nextPromise s)),
        trace := trace s @ [SendIQ (tree (config_query (roomjid s))),
                            SendIQ (tree (formsubmit (roomjid s) password)),
                            CreateRoom (getNodeFromJid (roomjid s))
                              \<lparr>disableDiscoInfo = True, disableFocus = True,
                               customDomain = lobbyroomComponentAddress s\<rparr> (nextRoom s),
                            Join (nextRoom s)],
        iqs := (iqs s)(nextIq s := None, Suc (nextIq s) := None),
        nextIq := Suc (Suc (nextIq s)),
        reactions := reactions s @ [(Own (Suc (nextPromise s)), Forward (nextPromise s))]\<rparr>"
proof -
  have n: "\<not> truthy None \<or> (joined s' \<and> isModerator s')" for s' :: lobby
    by (simp add: truthy_def)
  show ?thesis
    unfolding submit_answered_def form_answered_with_field[OF assms]
    by (simp add: iq_result_def joinLobbyRoom_lobby[OF n] attach_def fun_upd_twist)
qed

subsection \<open>The example states\<close>

lemma moderator_start_eval:
  "isLobbySupported moderator_start" "joined moderator_start \<and> isModerator moderator_start"
  "nextRoom moderator_start = 0" "nextPromise moderator_start = 0" "nextIq moderator_start = 0"
  "trace moderator_start = []" "roomjid moderator_start = ''room1@conference.example''"
  "lobbyroomComponentAddress moderator_start = Some ''lobby.example''"
  by (simp_all add: moderator_start_def constructor_def isLobbySupported_def truthy_def)

lemma participant_example_eval:
  "\<not> (joined participant_example \<and> isModerator participant_example)"
  "nextRoom participant_example = 0" "nextPromise participant_example = 0"
  "trace participant_example = []" "lobbyRoom participant_example = None"
  "mainListeners participant_example = []" "reactions participant_example = []"
  "roomjid participant_example = ''room1@conference.example''"
  "lobbyroomComponentAddress participant_example = Some ''lobby.example''"
  by (simp_all add: participant_example_def constructor_def)

lemma moderator_example_eval:
  "isLobbySupported moderator_example" "isModerator moderator_example"
  "lobbyRoom moderator_example = Some 0"
  "members (rooms moderator_example 0) =
     [(''room1@lobby.example/res123'', \<lparr>jid = ''alice@example.com/res123''\<rparr>)]"
  "roomjid moderator_example = ''room1@conference.example''"
  by (simp_all add: moderator_example_def run_def joinLobbyRoom_def constructor_def
      isLobbySupported_def truthy_def Let_def call_defs promise_defs split_def)

lemma find_membersonly_ignores_case:
  "find_membersonly
     (Elem ''iq'' [(''type'', ''result'')]
        [Elem ''QUERY'' [(''xmlns'', ''http://jabber.org/protocol/muc#owner'')]
           [Elem ''X'' [(''xmlns'', ''jabber:x:data'')]
              [Elem ''Field'' [(''var'', ''muc#roomconfig_membersonly'')] []]]]) \<noteq> []"
  by (simp add: find_membersonly_def child_step_def toLowerCase_def)

lemma example_forms:
  "find_membersonly members_only_form \<noteq> []" "find_membersonly plain_form = []"
  by (simp_all add: find_membersonly_def child_step_def members_only_form_def plain_form_def
      toLowerCase_def)

section \<open>Moderator actions\<close>

text \<open>
  C1.  \<^verbatim>\<open>denyAccess(id)\<close> and \<^verbatim>\<open>approveAccess(id)\<close>: when the caller is not a moderator of
  the main room, or no member of the lobby room has the room-local identifier \<open>id\<close>, no
  call is made to any collaborator (no stanza) and the state is the one before, apart
  from the logger's line.  When lobby is supported, the caller is a moderator and such a
  member exists, \<^verbatim>\<open>denyAccess\<close> kicks it (the first key of the members map with that
  identifier) from the lobby room, and \<^verbatim>\<open>approveAccess\<close> sends a message addressed to
  the main room with an invite that names the member's full address \<open>jid\<close>.
\<close>

theorem C1_deny_and_approve:
  "(\<not> isModerator s \<or> (\<forall>k \<in> fst ` set (lobby_members s). getResourceFromJid k \<noteq> Some ident)
      \<longrightarrow> trace (snd (denyAccess ident s)) = trace s
        \<and> (snd (denyAccess ident s))\<lparr>logged := logged s\<rparr> = s
        \<and> trace (snd (approveAccess ident s)) = trace s
        \<and> (snd (approveAccess ident s))\<lparr>logged := logged s\<rparr> = s)
   \<and> (isLobbySupported s \<and> isModerator s \<and> lobbyRoom s = Some r
        \<and> (\<exists>k \<in> fst ` set (members (rooms s r)). getResourceFromJid k = Some ident)
      \<longrightarrow> (\<exists>k m. find_member ident (members (rooms s r)) = Some k
             \<and> (k, m) \<in> set (members (rooms s r))
             \<and> getResourceFromJid k = Some ident
             \<and> denyAccess ident s = (Normal, s\<lparr>trace := trace s @ [Kick r k]\<rparr>)
             \<and> approveAccess ident s =
                 (Normal, sendIQ (invite (roomjid s) (jid m)) Ignore (LogInviteError (jid m)) s)
             \<and> trace (snd (approveAccess ident s)) =
                 trace s @ [SendIQ (Elem ''message'' [(''to'', roomjid s), (''xmlns'', ''jabber:client'')]
                   [Elem ''x'' [(''xmlns'', ''http://jabber.org/protocol/muc#user'')]
                      [Elem ''invite'' [(''to'', jid m)] []]])]))"
proof (intro conjI impI)
  assume a: "\<not> isModerator s
             \<or> (\<forall>k \<in> fst ` set (lobby_members s). getResourceFromJid k \<noteq> Some ident)"
  show "trace (snd (denyAccess ident s)) = trace s"
    using a access_not_moderator[of s ident] access_no_member(1)[of ident s]
    by (auto simp: find_member_None)
  show "(snd (denyAccess ident s))\<lparr>logged := logged s\<rparr> = s"
    using a access_not_moderator[of s ident] access_no_member(2)[of ident s]
    by (auto simp: find_member_None)
  show "trace (snd (approveAccess ident s)) = trace s"
    using a access_not_moderator[of s ident] access_no_member(3)[of ident s]
    by (auto simp: find_member_None)
  show "(snd (approveAccess ident s))\<lparr>logged := logged s\<rparr> = s"
    using a access_not_moderator[of s ident] access_no_member(4)[of ident s]
    by (auto simp: find_member_None)
next
  assume a: "isLobbySupported s \<and> isModerator s \<and> lobbyRoom s = Some r
        \<and> (\<exists>k \<in> fst ` set (members (rooms s r)). getResourceFromJid k = Some ident)"
  then obtain k where k: "find_member ident (members (rooms s r)) = Some k"
    using find_member_exists by blast
  from access_member[OF _ _ _ k] a obtain m where
    d: "denyAccess ident s = (Normal, s\<lparr>trace := trace s @ [Kick r k]\<rparr>)"
    and m: "map_of (members (rooms s r)) k = Some m"
    and ap: "approveAccess ident s =
           (Normal, sendIQ (invite (roomjid s) (jid m)) Ignore (LogInviteError (jid m)) s)"
    by blast
  have "(k, m) \<in> set (members (rooms s r))" using m by (rule map_of_SomeD)
  moreover have "getResourceFromJid k = Some ident" using find_member_Some(2)[OF k] .
  moreover have "trace (snd (approveAccess ident s)) =
                 trace s @ [SendIQ (Elem ''message'' [(''to'', roomjid s), (''xmlns'', ''jabber:client'')]
                   [Elem ''x'' [(''xmlns'', ''http://jabber.org/protocol/muc#user'')]
                      [Elem ''invite'' [(''to'', jid m)] []]])]"
    by (simp add: ap sendIQ_def call_def tree_invite)
  ultimately show "\<exists>k m. find_member ident (members (rooms s r)) = Some k
             \<and> (k, m) \<in> set (members (rooms s r))
             \<and> getResourceFromJid k = Some ident
             \<and> denyAccess ident s = (Normal, s\<lparr>trace := trace s @ [Kick r k]\<rparr>)
             \<and> approveAccess ident s =
                 (Normal, sendIQ (invite (roomjid s) (jid m)) Ignore (LogInviteError (jid m)) s)
             \<and> trace (snd (approveAccess ident s)) =
                 trace s @ [SendIQ (Elem ''message'' [(''to'', roomjid s), (''xmlns'', ''jabber:client'')]
                   [Elem ''x'' [(''xmlns'', ''http://jabber.org/protocol/muc#user'')]
                      [Elem ''invite'' [(''to'', jid m)] []]])]"
    using k d ap by blast
qed

theorem C1_deny_and_approve_witness:
  "isLobbySupported moderator_example \<and> isModerator moderator_example
   \<and> lobbyRoom moderator_example = Some 0
   \<and> getResourceFromJid ''room1@lobby.example/res123'' = Some ''res123''
   \<and> denyAccess ''res123'' moderator_example =
       (Normal, moderator_example
          \<lparr>trace := trace moderator_example @ [Kick 0 ''room1@lobby.example/res123'']\<rparr>)
   \<and> trace (snd (approveAccess ''res123'' moderator_example)) =
       trace moderator_example @ [SendIQ (Elem ''message'' [(''to'', ''room1@conference.example''), (''xmlns'', ''jabber:client'')]
         [Elem ''x'' [(''xmlns'', ''http://jabber.org/protocol/muc#user'')]
            [Elem ''invite'' [(''to'', ''alice@example.com/res123'')] []]])]
   \<and> trace (snd (denyAccess ''res999'' moderator_example)) = trace moderator_example
   \<and> trace (snd (approveAccess ''res999'' moderator_example)) = trace moderator_example"
proof -
  note ev = moderator_example_eval
  have res: "getResourceFromJid ''room1@lobby.example/res123'' = Some ''res123''"
    by (simp add: getResourceFromJid_def)
  have other: "getResourceFromJid ''room1@lobby.example/res123'' \<noteq> Some ''res999''"
    by (simp add: getResourceFromJid_def)
  from C1_deny_and_approve[of moderator_example "''res123''" 0] ev res
  have "\<exists>k m. (k, m) \<in> set (members (rooms moderator_example 0))
          \<and> denyAccess ''res123'' moderator_example =
              (Normal, moderator_example\<lparr>trace := trace moderator_example @ [Kick 0 k]\<rparr>)
          \<and> trace (snd (approveAccess ''res123'' moderator_example)) =
              trace moderator_example @ [SendIQ (Elem ''message'' [(''to'', roomjid moderator_example), (''xmlns'', ''jabber:client'')]
                [Elem ''x'' [(''xmlns'', ''http://jabber.org/protocol/muc#user'')]
                   [Elem ''invite'' [(''to'', jid m)] []]])]"
    by auto
  then have yes: "denyAccess ''res123'' moderator_example =
       (Normal, moderator_example
          \<lparr>trace := trace moderator_example @ [Kick 0 ''room1@lobby.example/res123'']\<rparr>)
     \<and> trace (snd (approveAccess ''res123'' moderator_example)) =
       trace moderator_example @ [SendIQ (Elem ''message'' [(''to'', ''room1@conference.example''), (''xmlns'', ''jabber:client'')]
         [Elem ''x'' [(''xmlns'', ''http://jabber.org/protocol/muc#user'')]
            [Elem ''invite'' [(''to'', ''alice@example.com/res123'')] []]])]"
    by (auto simp: ev)
  from C1_deny_and_approve[of moderator_example "''res999''" 0] ev other
  have no: "trace (snd (denyAccess ''res999'' moderator_example)) = trace moderator_example
     \<and> trace (snd (approveAccess ''res999'' moderator_example)) = trace moderator_example"
    by (simp add: lobby_members_def)
  from ev res yes no show ?thesis by simp
qed

section \<open>Enabling the lobby\<close>

text \<open>
  C2.  \<^verbatim>\<open>enableLobby(password)\<close> on a backend with lobby support, when the answer to the
  query has a \<^verbatim>\<open>muc#roomconfig_membersonly\<close> field: the stanza sent next is the
  submission of the form with \<^verbatim>\<open>FORM_TYPE\<close>, \<^verbatim>\<open>muc#roomconfig_membersonly\<close> set to
  \<^verbatim>\<open>true\<close>, and a \<^verbatim>\<open>muc#roomconfig_lobbypassword\<close> field with the password exactly when
  a password was given (a non-empty string, the test being \<^verbatim>\<open>if (password)\<close>).  When the
  submission is answered with a result, \<^verbatim>\<open>joinLobbyRoom()\<close> runs at once: the lobby room
  is created and joined, \<^verbatim>\<open>this.lobbyRoom\<close> refers to it.  However the lobby room then
  reports the end of the join (joined, or one of the three errors), the promise of that
  \<^verbatim>\<open>joinLobbyRoom\<close> call and the promise returned by \<^verbatim>\<open>enableLobby\<close> settle with the same
  outcome.
\<close>

theorem C2_enable_lobby_submits_and_joins:
  assumes "isLobbySupported s" and "find_membersonly res \<noteq> []"
  shows "fst (enableLobby password s) = Own (nextPromise s)
       \<and> trace (form_answered password res s) =
           trace s @
           [SendIQ (Elem ''iq'' [(''to'', roomjid s), (''type'', ''get''), (''xmlns'', ''jabber:client'')]
              [Elem ''query'' [(''xmlns'', ''http://jabber.org/protocol/muc#owner'')] []]),
            SendIQ (Elem ''iq'' [(''to'', roomjid s), (''type'', ''set''), (''xmlns'', ''jabber:client'')]
              [Elem ''query'' [(''xmlns'', ''http://jabber.org/protocol/muc#owner'')]
                 [Elem ''x'' [(''xmlns'', ''jabber:x:data''), (''type'', ''submit'')]
                    ([field ''FORM_TYPE'' ''http://jabber.org/protocol/muc#roomconfig'',
                      field ''muc#roomconfig_membersonly'' ''true'']
                     @ (if truthy password
                        then [field ''muc#roomconfig_lobbypassword'' (the password)]
                        else []))]])]
       \<and> submit_answered password res res' s =
           (let joining = joinLobbyRoom None None None
                            ((form_answered password res s)
                               \<lparr>iqs := (iqs (form_answered password res s))
                                         (Suc (nextIq s) := None)\<rparr>)
            in attach (fst joining) (Forward (nextPromise s)) (snd joining))
       \<and> fst (joinLobbyRoom None None None
                ((form_answered password res s)
                   \<lparr>iqs := (iqs (form_answered password res s))(Suc (nextIq s) := None)\<rparr>))
           = Own (Suc (nextPromise s))
       \<and> trace (submit_answered password res res' s) =
           trace (form_answered password res s) @
           [CreateRoom (getNodeFromJid (roomjid s))
              \<lparr>disableDiscoInfo = True, disableFocus = True,
               customDomain = lobbyroomComponentAddress s\<rparr> (nextRoom s),
            Join (nextRoom s)]
       \<and> lobbyRoom (submit_answered password res res' s) = Some (nextRoom s)
       \<and> (join_outcome ev = Some out \<longrightarrow>
            promises (snd (room_emits (nextRoom s) ev (submit_answered password res res' s)))
              (Suc (nextPromise s)) = Some out
          \<and> promises (snd (room_emits (nextRoom s) ev (submit_answered password res res' s)))
              (nextPromise s) = Some out)"
proof -
  let ?p = "nextPromise s" and ?r = "nextRoom s"
  let ?s4 = "submit_answered password res res' s"
  note fa = form_answered_with_field[OF assms, of password]
  note sa = submit_answered_state[OF assms, of password res']
  have n: "\<not> truthy None \<or> (joined s' \<and> isModerator s')" for s' :: lobby
    by (simp add: truthy_def)
  have 1: "fst (enableLobby password s) = Own ?p"
    by (simp add: enableLobby_supported[OF assms(1)])
  have 2: "trace (form_answered password res s) =
           trace s @
           [SendIQ (Elem ''iq'' [(''to'', roomjid s), (''type'', ''get''), (''xmlns'', ''jabber:client'')]
              [Elem ''query'' [(''xmlns'', ''http://jabber.org/protocol/muc#owner'')] []]),
            SendIQ (Elem ''iq'' [(''to'', roomjid s), (''type'', ''set''), (''xmlns'', ''jabber:client'')]
              [Elem ''query'' [(''xmlns'', ''http://jabber.org/protocol/muc#owner'')]
                 [Elem ''x'' [(''xmlns'', ''jabber:x:data''), (''type'', ''submit'')]
                    ([field ''FORM_TYPE'' ''http://jabber.org/protocol/muc#roomconfig'',
                      field ''muc#roomconfig_membersonly'' ''true'']
                     @ (if truthy password
                        then [field ''muc#roomconfig_lobbypassword'' (the password)]
                        else []))]])]"
    by (simp add: fa tree_config_query tree_formsubmit)
  have 3: "?s4 =
           (let joining = joinLobbyRoom None None None
                            ((form_answered password res s)
                               \<lparr>iqs := (iqs (form_answered password res s))
                                         (Suc (nextIq s) := None)\<rparr>)
            in attach (fst joining) (Forward ?p) (snd joining))"
    by (simp add: submit_answered_def iq_result_def fa split_def Let_def)
  have 4: "fst (joinLobbyRoom None None None
                ((form_answered password res s)
                   \<lparr>iqs := (iqs (form_answered password res s))(Suc (nextIq s) := None)\<rparr>))
           = Own (Suc ?p)"
    by (simp add: joinLobbyRoom_lobby[OF n] fa)
  have 5: "trace ?s4 = trace (form_answered password res s) @
           [CreateRoom (getNodeFromJid (roomjid s))
              \<lparr>disableDiscoInfo = True, disableFocus = True,
               customDomain = lobbyroomComponentAddress s\<rparr> ?r,
            Join ?r]"
    by (simp add: sa fa)
  have 6: "lobbyRoom ?s4 = Some ?r" by (simp add: sa)
  have 7: "promises (snd (room_emits ?r ev ?s4)) (Suc ?p) = Some out
          \<and> promises (snd (room_emits ?r ev ?s4)) ?p = Some out"
    if o: "join_outcome ev = Some out"
  proof -
    have l: "listeners (rooms ?s4 ?r) =
             listeners (joined_lobby_room None None (joined s \<and> isModerator s) (Suc ?p))"
      by (simp add: sa)
    have e: "room_emits ?r ev ?s4 = (Normal, settle (Own (Suc ?p)) out ?s4)"
      using join_reported[OF o l] .
    have a: "promises ?s4 (Suc ?p) = None" and b: "promises ?s4 ?p = None"
      and c0: "(Own (Suc ?p), Forward ?p) \<in> set (reactions ?s4)"
      by (simp_all add: sa)
    from settle_pending[OF a] settle_forwards[OF a c0 b] show ?thesis
      by (simp add: e)
  qed
  from 1 2 3 4 5 6 7 show ?thesis by blast
qed

theorem C2_enable_lobby_submits_and_joins_witness:
  "isLobbySupported moderator_start \<and> find_membersonly members_only_form \<noteq> []
   \<and> truthy (Some ''xyz789'')
   \<and> trace (form_answered (Some ''xyz789'') members_only_form moderator_start) =
       [SendIQ (Elem ''iq'' [(''to'', ''room1@conference.example''), (''type'', ''get''), (''xmlns'', ''jabber:client'')]
          [Elem ''query'' [(''xmlns'', ''http://jabber.org/protocol/muc#owner'')] []]),
        SendIQ (Elem ''iq'' [(''to'', ''room1@conference.example''), (''type'', ''set''), (''xmlns'', ''jabber:client'')]
          [Elem ''query'' [(''xmlns'', ''http://jabber.org/protocol/muc#owner'')]
             [Elem ''x'' [(''xmlns'', ''jabber:x:data''), (''type'', ''submit'')]
                [field ''FORM_TYPE'' ''http://jabber.org/protocol/muc#roomconfig'',
                 field ''muc#roomconfig_membersonly'' ''true'',
                 field ''muc#roomconfig_lobbypassword'' ''xyz789'']]])]
   \<and> trace (submit_answered (Some ''xyz789'') members_only_form empty_result moderator_start) =
       trace (form_answered (Some ''xyz789'') members_only_form moderator_start) @
       [CreateRoom (Some ''room1'')
          \<lparr>disableDiscoInfo = True, disableFocus = True, customDomain = Some ''lobby.example''\<rparr> 0,
        Join 0]
   \<and> lobbyRoom (submit_answered (Some ''xyz789'') members_only_form empty_result moderator_start)
       = Some 0
   \<and> join_outcome (RoomJoinError (Received ''not allowed'')) = Some (Rejected (Received ''not allowed''))
   \<and> promises (snd (room_emits 0 (RoomJoinError (Received ''not allowed''))
         (submit_answered (Some ''xyz789'') members_only_form empty_result moderator_start))) 0
       = Some (Rejected (Received ''not allowed''))"
proof -
  have t: "truthy (Some ''xyz789'')" by (simp add: truthy_def)
  have g: "getNodeFromJid ''room1@conference.example'' = Some ''room1''"
    by (simp add: getNodeFromJid_def)
  have o: "join_outcome (RoomJoinError (Received ''not allowed''))
           = Some (Rejected (Received ''not allowed''))"
    by simp
  note c2 = C2_enable_lobby_submits_and_joins[OF moderator_start_eval(1) example_forms(1),
      of "Some ''xyz789''" empty_result "RoomJoinError (Received ''not allowed'')"
         "Rejected (Received ''not allowed'')"]
  note c2_trace = c2[THEN conjunct2, THEN conjunct1]
  note c2_join = c2[THEN conjunct2, THEN conjunct2, THEN conjunct2, THEN conjunct2,
      THEN conjunct1]
  note c2_room = c2[THEN conjunct2, THEN conjunct2, THEN conjunct2, THEN conjunct2,
      THEN conjunct2, THEN conjunct1]
  note c2_outcome = c2[THEN conjunct2, THEN conjunct2, THEN conjunct2, THEN conjunct2,
      THEN conjunct2, THEN conjunct2]
  from c2_trace have
    a: "trace (form_answered (Some ''xyz789'') members_only_form moderator_start) =
       [SendIQ (Elem ''iq'' [(''to'', ''room1@conference.example''), (''type'', ''get''), (''xmlns'', ''jabber:client'')]
          [Elem ''query'' [(''xmlns'', ''http://jabber.org/protocol/muc#owner'')] []]),
        SendIQ (Elem ''iq'' [(''to'', ''room1@conference.example''), (''type'', ''set''), (''xmlns'', ''jabber:client'')]
          [Elem ''query'' [(''xmlns'', ''http://jabber.org/protocol/muc#owner'')]
             [Elem ''x'' [(''xmlns'', ''jabber:x:data''), (''type'', ''submit'')]
                [field ''FORM_TYPE'' ''http://jabber.org/protocol/muc#roomconfig'',
                 field ''muc#roomconfig_membersonly'' ''true'',
                 field ''muc#roomconfig_lobbypassword'' ''xyz789'']]])]"
    using t by (simp add: moderator_start_eval)
  from c2_join c2_room have
    b: "trace (submit_answered (Some ''xyz789'') members_only_form empty_result moderator_start) =
       trace (form_answered (Some ''xyz789'') members_only_form moderator_start) @
       [CreateRoom (Some ''room1'')
          \<lparr>disableDiscoInfo = True, disableFocus = True, customDomain = Some ''lobby.example''\<rparr> 0,
        Join 0]"
    and l: "lobbyRoom (submit_answered (Some ''xyz789'') members_only_form empty_result
              moderator_start) = Some 0"
    by (simp_all add: moderator_start_eval g)
  from c2_outcome o have
    p: "promises (snd (room_emits 0 (RoomJoinError (Received ''not allowed''))
         (submit_answered (Some ''xyz789'') members_only_form empty_result moderator_start))) 0
       = Some (Rejected (Received ''not allowed''))"
    by (simp add: moderator_start_eval)
  from moderator_start_eval(1) example_forms(1) t a b l o p show ?thesis by blast
qed

text \<open>
  C3.  \<^verbatim>\<open>enableLobby\<close> on a backend with lobby support sends the query for the
  configuration form.  When the answer has no \<^verbatim>\<open>muc#roomconfig_membersonly\<close> field, the
  promise returned by \<^verbatim>\<open>enableLobby\<close> is rejected with the error
  \<^verbatim>\<open>Setting members only room not supported!\<close>, the query is the only stanza sent (no
  configuration is submitted), and the request has no callback left: a further answer to
  it does nothing.
\<close>

theorem C3_form_without_members_only:
  assumes "isLobbySupported s" and "find_membersonly res = []"
  shows "fst (enableLobby password s) = Own (nextPromise s)
       \<and> promises (form_answered password res s) (nextPromise s) =
           Some (Rejected (Error ''Setting members only room not supported!''))
       \<and> trace (form_answered password res s) =
           trace s @ [SendIQ (Elem ''iq'' [(''to'', roomjid s), (''type'', ''get''), (''xmlns'', ''jabber:client'')]
                       [Elem ''query'' [(''xmlns'', ''http://jabber.org/protocol/muc#owner'')] []])]
       \<and> iqs (form_answered password res s) = (iqs s)(nextIq s := None)
       \<and> iq_result (nextIq s) res' (form_answered password res s) = form_answered password res s"
proof -
  note f = form_answered_without_field[OF assms, of password]
  have 1: "fst (enableLobby password s) = Own (nextPromise s)"
    by (simp add: enableLobby_supported[OF assms(1)])
  have 2: "promises (form_answered password res s) (nextPromise s) =
           Some (Rejected (Error ''Setting members only room not supported!''))"
    unfolding f by (rule settle_pending) simp
  have 3: "trace (form_answered password res s) =
           trace s @ [SendIQ (Elem ''iq'' [(''to'', roomjid s), (''type'', ''get''), (''xmlns'', ''jabber:client'')]
                       [Elem ''query'' [(''xmlns'', ''http://jabber.org/protocol/muc#owner'')] []])]"
    unfolding f by (simp add: settle_proj tree_config_query)
  have 4: "iqs (form_answered password res s) = (iqs s)(nextIq s := None)"
    unfolding f by (simp add: settle_proj)
  have 5: "iq_result (nextIq s) res' (form_answered password res s) = form_answered password res s"
    by (simp add: iq_result_def 4)
  from 1 2 3 4 5 show ?thesis by blast
qed

theorem C3_form_without_members_only_witness:
  "isLobbySupported moderator_start \<and> find_membersonly plain_form = []
   \<and> fst (enableLobby (Some ''xyz789'') moderator_start) = Own 0
   \<and> promises (form_answered (Some ''xyz789'') plain_form moderator_start) 0 =
       Some (Rejected (Error ''Setting members only room not supported!''))
   \<and> trace (form_answered (Some ''xyz789'') plain_form moderator_start) =
       [SendIQ (Elem ''iq'' [(''to'', ''room1@conference.example''), (''type'', ''get''), (''xmlns'', ''jabber:client'')]
          [Elem ''query'' [(''xmlns'', ''http://jabber.org/protocol/muc#owner'')] []])]"
proof -
  from C3_form_without_members_only[OF moderator_start_eval(1) example_forms(2),
      of "Some ''xyz789''" empty_result]
    moderator_start_eval example_forms(2)
  show ?thesis by simp
qed

section \<open>Joining\<close>

text \<open>
  C4.  \<^verbatim>\<open>joinLobbyRoom\<close> with a shared password (a non-empty string, the test being
  \<^verbatim>\<open>if (password && !isModerator)\<close>) by a caller who is not a joined moderator: the only
  call made is \<^verbatim>\<open>mainRoom.join(password)\<close>, the result is the very promise that call
  returns (so it resolves or rejects as the main-room join does), no room is created and
  \<^verbatim>\<open>this.lobbyRoom\<close> is left as it was.
\<close>

theorem C4_shared_password_joins_main_room:
  assumes "truthy password" and "\<not> (joined s \<and> isModerator s)"
  shows "joinLobbyRoom displayName email password s = mainRoom_join password s
       \<and> joinLobbyRoom displayName email password s =
           (Returned (length (trace s)), s\<lparr>trace := trace s @ [MainJoin password]\<rparr>)
       \<and> lobbyRoom (snd (joinLobbyRoom displayName email password s)) = lobbyRoom s
       \<and> nextRoom (snd (joinLobbyRoom displayName email password s)) = nextRoom s"
  using assms by (simp add: joinLobbyRoom_def mainRoom_join_def call_def)

theorem C4_shared_password_joins_main_room_witness:
  "truthy (Some ''xyz789'')
   \<and> \<not> (joined participant_example \<and> isModerator participant_example)
   \<and> joinLobbyRoom (Some ''Alice'') None (Some ''xyz789'') participant_example =
       (Returned 0, participant_example\<lparr>trace := [MainJoin (Some ''xyz789'')]\<rparr>)
   \<and> lobbyRoom (snd (joinLobbyRoom (Some ''Alice'') None (Some ''xyz789'') participant_example))
       = None"
proof -
  have t: "truthy (Some ''xyz789'')" by (simp add: truthy_def)
  from C4_shared_password_joins_main_room[OF t participant_example_eval(1),
      of "Some ''Alice''" None, THEN conjunct2] t participant_example_eval
  show ?thesis by simp
qed

section \<open>Waiting in the lobby\<close>

text \<open>
  C5, as the code has it.  After \<^verbatim>\<open>joinLobbyRoom\<close> by a caller who is not a joined
  moderator (without a shared password), \<^verbatim>\<open>this.lobbyRoom\<close> refers to the new room as
  soon as the call returns, before the join is reported.  Whatever happens later, a kick
  of the participant's own presence reported by that room puts exactly one
  \<^verbatim>\<open>MUC_DENIED_ACCESS\<close> on the main room's emitter and calls \<^verbatim>\<open>clean()\<close> on the room the
  controller refers to, and changes nothing else: \<^verbatim>\<open>this.lobbyRoom\<close> still refers to a
  room then, as it does after every later event.  A kick of somebody else has no effect.
  Before anybody asks to join, \<^verbatim>\<open>this.lobbyRoom\<close> is undefined.
\<close>

theorem C5_kicked_keeps_lobby_room:
  assumes "\<not> (joined s \<and> isModerator s)" and "\<not> truthy password"
  shows "lobbyRoom (snd (joinLobbyRoom displayName email password s)) = Some (nextRoom s)
       \<and> room_emits (nextRoom s) (Kicked True) (snd (joinLobbyRoom displayName email password s))
           = (Normal, (snd (joinLobbyRoom displayName email password s))
                \<lparr>trace := trace (snd (joinLobbyRoom displayName email password s))
                           @ [Emit MUC_DENIED_ACCESS, Clean (nextRoom s)]\<rparr>)
       \<and> (\<exists>r'. lobbyRoom (run later (snd (joinLobbyRoom displayName email password s))) = Some r'
             \<and> room_emits (nextRoom s) (Kicked True)
                 (run later (snd (joinLobbyRoom displayName email password s)))
               = (Normal, (run later (snd (joinLobbyRoom displayName email password s)))
                    \<lparr>trace := trace (run later (snd (joinLobbyRoom displayName email password s)))
                               @ [Emit MUC_DENIED_ACCESS, Clean r']\<rparr>)
             \<and> room_emits (nextRoom s) (Kicked False)
                 (run later (snd (joinLobbyRoom displayName email password s)))
               = (Normal, run later (snd (joinLobbyRoom displayName email password s))))
       \<and> ((\<forall>i \<in> set inputs. \<not> asks_to_join i)
            \<longrightarrow> lobbyRoom (run inputs (constructor address room_jid is_joined is_moderator)) = None)"
proof -
  let ?s1 = "snd (joinLobbyRoom displayName email password s)"
  note j = joinLobbyRoom_participant[OF assms, of displayName email]
  have lr: "lobbyRoom ?s1 = Some (nextRoom s)" by (simp add: j)
  have hs: "handlers_for KICKED (listeners (rooms ?s1 (nextRoom s))) = [OnKicked]"
    by (simp add: j joined_lobby_room_def handlers_for_def)
  have ext: "extends ?s1 (run later ?s1)" by (rule run_extends)
  have lt: "nextRoom s < nextRoom ?s1" by (simp add: j)
  from ext lr obtain r' where r': "lobbyRoom (run later ?s1) = Some r'"
    by (auto simp: extends_def)
  from ext lt have "listeners (rooms (run later ?s1) (nextRoom s)) = listeners (rooms ?s1 (nextRoom s))"
    by (simp add: extends_def)
  with hs have hs': "handlers_for KICKED (listeners (rooms (run later ?s1) (nextRoom s))) = [OnKicked]"
    by simp
  have none: "(\<forall>i \<in> set inputs. \<not> asks_to_join i)
            \<longrightarrow> lobbyRoom (run inputs (constructor address room_jid is_joined is_moderator)) = None"
    using untouched_run[OF untouched_constructor] by (auto simp: untouched_def)
  from lr kicked_listener(1)[OF hs lr] r' kicked_listener[OF hs' r'] none
  show ?thesis by blast
qed

theorem C5_kicked_keeps_lobby_room_witness:
  "\<not> (joined participant_example \<and> isModerator participant_example) \<and> \<not> truthy None
   \<and> \<not> asks_to_join (MainRoomBecomes True False)
   \<and> lobbyRoom (run [MainRoomBecomes True False] participant_example) = None
   \<and> lobbyRoom (snd (joinLobbyRoom (Some ''Alice'') None None participant_example)) = Some 0
   \<and> room_emits 0 (Kicked True) (snd (joinLobbyRoom (Some ''Alice'') None None participant_example))
       = (Normal, (snd (joinLobbyRoom (Some ''Alice'') None None participant_example))
            \<lparr>trace := trace (snd (joinLobbyRoom (Some ''Alice'') None None participant_example))
                       @ [Emit MUC_DENIED_ACCESS, Clean 0]\<rparr>)"
proof -
  have n: "\<not> truthy None" by (simp add: truthy_def)
  have a: "\<forall>i \<in> set [MainRoomBecomes True False]. \<not> asks_to_join i" by simp
  from C5_kicked_keeps_lobby_room[OF participant_example_eval(1) n,
      of "Some ''Alice''" None "[]" "[MainRoomBecomes True False]"
         "Some ''lobby.example''" "''room1@conference.example''" False False]
    a n participant_example_eval
  show ?thesis by (simp add: participant_example_def)
qed

text \<open>
  A participant joins the lobby room, the join is reported, and the participant is kicked:
  the notification is emitted, the room is cleaned, and \<^verbatim>\<open>this.lobbyRoom\<close> is still
  assigned.
\<close>

theorem C5_counterexample:
  "\<not> (lobbyRoom (run [JoinLobbyRoom (Some ''Alice'') None None, RoomEmits 0 MucJoined,
                      RoomEmits 0 (Kicked True)] participant_example) = None)
   \<and> trace (run [JoinLobbyRoom (Some ''Alice'') None None, RoomEmits 0 MucJoined,
                 RoomEmits 0 (Kicked True)] participant_example) =
      [CreateRoom (Some ''room1'')
         \<lparr>disableDiscoInfo = True, disableFocus = True, customDomain = Some ''lobby.example''\<rparr> 0,
       Join 0, Emit MUC_DENIED_ACCESS, Clean 0]"
  by (simp add: run_def participant_example_def constructor_def joinLobbyRoom_def Let_def
      call_defs promise_defs room_emits_def handlers_for_def truthy_def getNodeFromJid_def
      empty_room_def)

text \<open>
  C6.  A controller made by the constructor, after whatever has happened to it; its
  caller, not a joined moderator, calls \<^verbatim>\<open>joinLobbyRoom\<close> without a shared password; then
  anything may happen (the join is reported, presences arrive, further calls).  In the
  state reached, \<^verbatim>\<open>this.lobbyRoom\<close> refers to a room \<open>r\<close> and the main room has \<open>n\<close>
  listeners, at least one, each of them the invite listener (one for every
  \<^verbatim>\<open>joinLobbyRoom\<close> that went to the lobby as a non-moderator).  An
  \<^verbatim>\<open>INVITE_MESSAGE_RECEIVED\<close> whose room identifier is the main room's makes each listener
  call \<^verbatim>\<open>mainRoom.join()\<close> and then \<^verbatim>\<open>leave()\<close> on the lobby room, with a reaction on the
  promise of the leave that does nothing: the calls made are \<open>n\<close> times join, leave, and
  no promise of the controller, no room and no listener changes.  When afterwards any
  promise returned by a room settles, resolved or rejected with whatever error, the state
  stays what it is but for the reactions on that promise being gone.  An invite with
  another room identifier changes nothing but the logger's output.  When this was the
  first listener on the main room and \<^verbatim>\<open>joinLobbyRoom\<close> did not run again (no further
  call of it, no answer to a request), there is one listener and the room left is the one
  this call created: one join of the main room, one leave of that lobby room.
\<close>

theorem C6_invite_joins_and_leaves:
  assumes "s = run before (constructor address room_jid is_joined is_moderator)"
    and "\<not> (joined s \<and> isModerator s)" and "\<not> truthy password"
  shows "\<exists>r n. 0 < n
       \<and> lobbyRoom (run later (snd (joinLobbyRoom displayName email password s))) = Some r
       \<and> length (mainListeners (run later (snd (joinLobbyRoom displayName email password s)))) = n
       \<and> mainRoom_emits
            (InviteMessageReceived
               (roomjid (run later (snd (joinLobbyRoom displayName email password s)))) frm txt)
            (run later (snd (joinLobbyRoom displayName email password s)))
           = (Normal, (accept_invite r frm txt ^^ n)
                        (run later (snd (joinLobbyRoom displayName email password s))))
       \<and> trace ((accept_invite r frm txt ^^ n)
                  (run later (snd (joinLobbyRoom displayName email password s))))
           = trace (run later (snd (joinLobbyRoom displayName email password s)))
             @ concat (replicate n [MainJoin None, Leave r])
       \<and> promises ((accept_invite r frm txt ^^ n)
                  (run later (snd (joinLobbyRoom displayName email password s))))
           = promises (run later (snd (joinLobbyRoom displayName email password s)))
       \<and> rooms ((accept_invite r frm txt ^^ n)
                  (run later (snd (joinLobbyRoom displayName email password s))))
           = rooms (run later (snd (joinLobbyRoom displayName email password s)))
       \<and> (\<forall>k out.
             settle (Returned k) out
               ((accept_invite r frm txt ^^ n)
                  (run later (snd (joinLobbyRoom displayName email password s))))
             = ((accept_invite r frm txt ^^ n)
                  (run later (snd (joinLobbyRoom displayName email password s))))
                 \<lparr>reactions :=
                    filter (\<lambda>(q, x). q \<noteq> Returned k)
                      (reactions ((accept_invite r frm txt ^^ n)
                         (run later (snd (joinLobbyRoom displayName email password s)))))\<rparr>)
       \<and> (roomJid \<noteq> roomjid (run later (snd (joinLobbyRoom displayName email password s)))
            \<longrightarrow> mainRoom_emits (InviteMessageReceived roomJid frm txt)
                  (run later (snd (joinLobbyRoom displayName email password s)))
                = (Normal, (run later (snd (joinLobbyRoom displayName email password s)))
                     \<lparr>logged :=
                        logged (run later (snd (joinLobbyRoom displayName email password s)))
                        @ replicate n (approval_logged roomJid frm txt)\<rparr>))
       \<and> (mainListeners s = [] \<and> (\<forall>i \<in> set later. \<not> may_join i)
            \<longrightarrow> n = 1 \<and> r = nextRoom s)"
proof -
  let ?s1 = "snd (joinLobbyRoom displayName email password s)"
  let ?s2 = "run later ?s1"
  note j = joinLobbyRoom_participant[OF assms(2,3), of displayName email]
  have o: "orderly s" unfolding assms(1) by (rule orderly_run)
  have "listening s ?s1" by (rule joinLobbyRoom_listening)
  moreover have "listening ?s1 ?s2" by (rule run_listening)
  ultimately have o2: "orderly ?s2"
    and len: "length (mainListeners ?s1) \<le> length (mainListeners ?s2)"
    using o by (simp_all add: listening_def)
  have lr1: "lobbyRoom ?s1 = Some (nextRoom s)"
    and ml1: "mainListeners ?s1 = mainListeners s @ [(INVITE_MESSAGE_RECEIVED, OnInvite)]"
    by (simp_all add: j)
  define n where "n = length (mainListeners ?s2)"
  from len ml1 have "Suc 0 \<le> length (mainListeners ?s2)" by simp
  then have pos: "0 < n" unfolding n_def by arith
  have "extends ?s1 ?s2" by (rule run_extends)
  with lr1 obtain r where r: "lobbyRoom ?s2 = Some r" by (auto simp: extends_def)
  from o2 have hs: "handlers_for INVITE_MESSAGE_RECEIVED (mainListeners ?s2) = replicate n OnInvite"
    unfolding n_def orderly_def by (simp add: invite_handlers)
  have e: "mainRoom_emits (InviteMessageReceived (roomjid ?s2) frm txt) ?s2
           = (Normal, (accept_invite r frm txt ^^ n) ?s2)"
    by (simp add: mainRoom_emits_def hs invites_accepted[OF r])
  have "listening ?s2 (exec (MainRoomEmits (InviteMessageReceived (roomjid ?s2) frm txt)) ?s2)"
    by (rule exec_listening)
  with o2 e have o3: "orderly ((accept_invite r frm txt ^^ n) ?s2)"
    by (simp add: listening_def)
  have sw: "\<forall>k out. settle (Returned k) out ((accept_invite r frm txt ^^ n) ?s2)
             = ((accept_invite r frm txt ^^ n) ?s2)
                 \<lparr>reactions := filter (\<lambda>(q, x). q \<noteq> Returned k)
                      (reactions ((accept_invite r frm txt ^^ n) ?s2))\<rparr>"
    using settle_returned_orderly[OF o3] by blast
  have other: "roomJid \<noteq> roomjid ?s2
            \<longrightarrow> mainRoom_emits (InviteMessageReceived roomJid frm txt) ?s2
                = (Normal, ?s2\<lparr>logged := logged ?s2
                                 @ replicate n (approval_logged roomJid frm txt)\<rparr>)"
    by (simp add: mainRoom_emits_def hs invites_ignored)
  have one: "n = 1 \<and> r = nextRoom s"
    if q: "mainListeners s = [] \<and> (\<forall>i \<in> set later. \<not> may_join i)"
  proof -
    from q have "same_ears ?s1 ?s2" by (simp add: run_same_ears)
    with ml1 lr1 q r show ?thesis by (simp add: same_ears_def n_def)
  qed
  have len_n: "length (mainListeners ?s2) = n" by (simp add: n_def)
  have tr: "trace ((accept_invite r frm txt ^^ n) ?s2)
            = trace ?s2 @ concat (replicate n [MainJoin None, Leave r])"
    by (rule accepted_trace)
  have pr: "promises ((accept_invite r frm txt ^^ n) ?s2) = promises ?s2"
    and ro: "rooms ((accept_invite r frm txt ^^ n) ?s2) = rooms ?s2"
    by (simp_all add: accepted_rest)
  from pos r len_n e tr pr ro sw other one show ?thesis by blast
qed

theorem C6_invite_joins_and_leaves_witness:
  "participant_example =
     run [] (constructor (Some ''lobby.example'') ''room1@conference.example'' False False)
   \<and> \<not> (joined participant_example \<and> isModerator participant_example) \<and> \<not> truthy None
   \<and> mainListeners participant_example = [] \<and> \<not> may_join (RoomEmits 0 MucJoined)
   \<and> trace (snd (mainRoom_emits (InviteMessageReceived ''room1@conference.example''
                 ''room1@conference.example'' '''')
               (run [RoomEmits 0 MucJoined]
                  (snd (joinLobbyRoom (Some ''Alice'') None None participant_example))))) =
       trace (run [RoomEmits 0 MucJoined]
                (snd (joinLobbyRoom (Some ''Alice'') None None participant_example)))
         @ [MainJoin None, Leave 0]
   \<and> trace (settle (Returned 3) (Rejected (Received ''leave failed''))
        (snd (mainRoom_emits (InviteMessageReceived ''room1@conference.example''
                 ''room1@conference.example'' '''')
               (run [RoomEmits 0 MucJoined]
                  (snd (joinLobbyRoom (Some ''Alice'') None None participant_example)))))) =
       trace (run [RoomEmits 0 MucJoined]
                (snd (joinLobbyRoom (Some ''Alice'') None None participant_example)))
         @ [MainJoin None, Leave 0]
   \<and> trace (snd (mainRoom_emits (InviteMessageReceived ''other@conference.example''
                 ''room1@conference.example'' '''')
               (run [RoomEmits 0 MucJoined]
                  (snd (joinLobbyRoom (Some ''Alice'') None None participant_example))))) =
       trace (run [RoomEmits 0 MucJoined]
                (snd (joinLobbyRoom (Some ''Alice'') None None participant_example)))"
proof -
  let ?s2 = "run [RoomEmits 0 MucJoined]
               (snd (joinLobbyRoom (Some ''Alice'') None None participant_example))"
  have c0: "participant_example =
     run [] (constructor (Some ''lobby.example'') ''room1@conference.example'' False False)"
    by (simp add: participant_example_def run_def)
  have n: "\<not> truthy None" by (simp add: truthy_def)
  have q: "\<forall>i \<in> set [RoomEmits 0 MucJoined]. \<not> may_join i" by simp
  note j = joinLobbyRoom_participant[OF participant_example_eval(1) n, of "Some ''Alice''" None]
  have rj: "roomjid ?s2 = ''room1@conference.example''"
    by (simp add: run_def room_emits_def handlers_for_def j joined_lobby_room_def
        participant_example_eval settle_proj)
  from C6_invite_joins_and_leaves[OF c0 participant_example_eval(1) n,
      of "[RoomEmits 0 MucJoined]" "Some ''Alice''" None "''room1@conference.example''" "''''"
         "''other@conference.example''"]
  obtain r k where
    e: "mainRoom_emits (InviteMessageReceived (roomjid ?s2) ''room1@conference.example'' '''') ?s2
          = (Normal, (accept_invite r ''room1@conference.example'' '''' ^^ k) ?s2)"
    and tr: "trace ((accept_invite r ''room1@conference.example'' '''' ^^ k) ?s2)
          = trace ?s2 @ concat (replicate k [MainJoin None, Leave r])"
    and sw: "\<forall>m out. settle (Returned m) out
               ((accept_invite r ''room1@conference.example'' '''' ^^ k) ?s2)
             = ((accept_invite r ''room1@conference.example'' '''' ^^ k) ?s2)
                 \<lparr>reactions := filter (\<lambda>(q, x). q \<noteq> Returned m)
                    (reactions ((accept_invite r ''room1@conference.example'' '''' ^^ k) ?s2))\<rparr>"
    and other: "''other@conference.example'' \<noteq> roomjid ?s2
            \<longrightarrow> mainRoom_emits (InviteMessageReceived ''other@conference.example''
                    ''room1@conference.example'' '''') ?s2
                = (Normal, ?s2\<lparr>logged := logged ?s2
                     @ replicate k (approval_logged ''other@conference.example''
                                      ''room1@conference.example'' '''')\<rparr>)"
    and one: "mainListeners participant_example = []
              \<and> (\<forall>i \<in> set [RoomEmits 0 MucJoined]. \<not> may_join i)
            \<longrightarrow> k = 1 \<and> r = nextRoom participant_example"
    by blast
  from one q participant_example_eval have k: "k = 1" and r: "r = 0" by simp_all
  have t1: "trace (snd (mainRoom_emits (InviteMessageReceived ''room1@conference.example''
                 ''room1@conference.example'' '''') ?s2)) = trace ?s2 @ [MainJoin None, Leave 0]"
    using e tr unfolding rj k r by simp
  have "trace (settle (Returned 3) (Rejected (Received ''leave failed''))
          ((accept_invite r ''room1@conference.example'' '''' ^^ k) ?s2))
        = trace ((accept_invite r ''room1@conference.example'' '''' ^^ k) ?s2)"
    using sw[rule_format, of 3 "Rejected (Received ''leave failed'')"] by simp
  then have t2: "trace (settle (Returned 3) (Rejected (Received ''leave failed''))
        (snd (mainRoom_emits (InviteMessageReceived ''room1@conference.example''
                 ''room1@conference.example'' '''') ?s2))) = trace ?s2 @ [MainJoin None, Leave 0]"
    using e tr unfolding rj k r by simp
  have t3: "trace (snd (mainRoom_emits (InviteMessageReceived ''other@conference.example''
                 ''room1@conference.example'' '''') ?s2)) = trace ?s2"
    using other unfolding rj by simp
  have m: "\<not> may_join (RoomEmits 0 MucJoined)" by simp
  from c0 participant_example_eval(1) n participant_example_eval(6) m t1 t2 t3
  show ?thesis by blast
qed

section \<open>Notifications to a moderator\<close>

text \<open>
  C7.  After a joined moderator has called \<^verbatim>\<open>joinLobbyRoom\<close>, and whatever has happened
  since, every presence of the lobby room made known to the controller (a participant
  joins, or an e-mail presence node arrives) puts exactly one notification on the main
  room's emitter: \<^verbatim>\<open>MUC_LOBBY_MEMBER_JOINED\<close> with the resource of the sender's room
  address, the nickname and the avatar of the identity if there is one, or
  \<^verbatim>\<open>MUC_LOBBY_MEMBER_UPDATED\<close> with the sender as the room hands it to the presence
  listener and the e-mail of the node.  Nothing else changes.
\<close>

theorem C7_moderator_notifications:
  assumes "joined s \<and> isModerator s"
  shows "exec (delivered (nextRoom s) ev)
           (run later (snd (joinLobbyRoom displayName email password s))) =
         (run later (snd (joinLobbyRoom displayName email password s)))
           \<lparr>trace := trace (run later (snd (joinLobbyRoom displayName email password s)))
                      @ [Emit (expected_notification ev)]\<rparr>"
proof -
  let ?s1 = "snd (joinLobbyRoom displayName email password s)"
  from assms have j: "joinLobbyRoom displayName email password s =
     (Own (nextPromise s),
      s\<lparr>lobbyRoom := Some (nextRoom s),
        rooms := (rooms s)(nextRoom s :=
                   joined_lobby_room displayName email True (nextPromise s)),
        nextRoom := Suc (nextRoom s),
        mainListeners := mainListeners s,
        promises := (promises s)(nextPromise s := None),
        nextPromise := Suc (nextPromise s),
        trace := trace s @
           [CreateRoom (getNodeFromJid (roomjid s))
              \<lparr>disableDiscoInfo = True, disableFocus = True,
               customDomain = lobbyroomComponentAddress s\<rparr> (nextRoom s),
            Join (nextRoom s)]\<rparr>)"
    using joinLobbyRoom_lobby[of password s displayName email] by auto
  have "extends ?s1 (run later ?s1)" by (rule run_extends)
  moreover have "nextRoom s < nextRoom ?s1" by (simp add: j)
  ultimately have
    "listeners (rooms (run later ?s1) (nextRoom s)) = listeners (rooms ?s1 (nextRoom s))"
    "presenceListeners (rooms (run later ?s1) (nextRoom s)) =
       presenceListeners (rooms ?s1 (nextRoom s))"
    by (simp_all add: extends_def)
  then have
    "handlers_for MUC_MEMBER_JOINED (listeners (rooms (run later ?s1) (nextRoom s)))
       = [OnMemberJoined]"
    "handlers_for EMAIL_COMMAND (presenceListeners (rooms (run later ?s1) (nextRoom s)))
       = [OnEmailPresence]"
    by (simp_all add: j joined_lobby_room_def handlers_for_def)
  then show ?thesis by (rule moderator_listeners_notify)
qed

theorem C7_moderator_notifications_witness:
  "joined moderator_start \<and> isModerator moderator_start
   \<and> trace (exec (delivered 0 (Joins ''room1@lobby.example/res123'' (Some ''Alice'')
                     ''participant'' False None None (Some (Identity (Some ''avatar.png'')))))
        (run [RoomEmits 0 MucJoined] (snd (joinLobbyRoom None None None moderator_start)))) =
      trace (run [RoomEmits 0 MucJoined] (snd (joinLobbyRoom None None None moderator_start)))
        @ [Emit (MUC_LOBBY_MEMBER_JOINED (Some ''res123'') (Some ''Alice'') (Some ''avatar.png''))]
   \<and> trace (exec (delivered 0 (Updates \<lparr>attributes = [], node_value = ''alice@example.com''\<rparr>
                     ''res123''))
        (run [RoomEmits 0 MucJoined] (snd (joinLobbyRoom None None None moderator_start)))) =
      trace (run [RoomEmits 0 MucJoined] (snd (joinLobbyRoom None None None moderator_start)))
        @ [Emit (MUC_LOBBY_MEMBER_UPDATED ''res123'' ''alice@example.com'')]"
proof -
  have m: "joined moderator_start \<and> isModerator moderator_start"
    and n: "nextRoom moderator_start = 0"
    by (simp_all add: moderator_start_def constructor_def)
  have res: "getResourceFromJid ''room1@lobby.example/res123'' = Some ''res123''"
    by (simp add: getResourceFromJid_def)
  from C7_moderator_notifications[OF m, of "Joins ''room1@lobby.example/res123'' (Some ''Alice'')
          ''participant'' False None None (Some (Identity (Some ''avatar.png'')))"
        "[RoomEmits 0 MucJoined]" None None None]
    C7_moderator_notifications[OF m, of
        "Updates \<lparr>attributes = [], node_value = ''alice@example.com''\<rparr> ''res123''"
        "[RoomEmits 0 MucJoined]" None None None]
    m n res
  show ?thesis by simp
qed

section \<open>The e-mail of a participant\<close>

text \<open>
  C8.  \<^verbatim>\<open>joinLobbyRoom\<close> by a caller who is not a joined moderator (and without a shared
  password, so that the lobby room is joined): when the lobby room reports the join
  (\<^verbatim>\<open>MUC_JOINED\<close>), the promise of the call resolves, and a presence is sent after it if
  and only if an e-mail was given (a non-empty string, the test being
  \<^verbatim>\<open>if (email && !isModerator)\<close>); that presence carries the e-mail node beside the
  nickname.  With a display name and no e-mail nothing is sent after the join.
\<close>

theorem C8_email_presence_after_join:
  assumes "\<not> (joined s \<and> isModerator s)" and "\<not> truthy password"
  shows "fst (room_emits (nextRoom s) MucJoined
                (snd (joinLobbyRoom displayName email password s))) = Normal
       \<and> promises (snd (room_emits (nextRoom s) MucJoined
                (snd (joinLobbyRoom displayName email password s)))) (nextPromise s) = Some Resolved
       \<and> trace (snd (room_emits (nextRoom s) MucJoined
                (snd (joinLobbyRoom displayName email password s)))) =
           trace (snd (joinLobbyRoom displayName email password s)) @
             (if truthy email then
                [SendPresence (nextRoom s)
                   (nick_presence displayName @
                    [(EMAIL_COMMAND, \<lparr>attributes = [], node_value = the email\<rparr>)])]
              else [])"
proof -
  let ?s1 = "snd (joinLobbyRoom displayName email password s)"
  let ?p = "nextPromise s" and ?r = "nextRoom s"
  let ?s1' = "settle (Own ?p) Resolved ?s1"
  from assms have j: "joinLobbyRoom displayName email password s =
     (Own (nextPromise s),
      s\<lparr>lobbyRoom := Some (nextRoom s),
        rooms := (rooms s)(nextRoom s :=
                   joined_lobby_room displayName email False (nextPromise s)),
        nextRoom := Suc (nextRoom s),
        mainListeners := mainListeners s @ [(INVITE_MESSAGE_RECEIVED, OnInvite)],
        promises := (promises s)(nextPromise s := None),
        nextPromise := Suc (nextPromise s),
        trace := trace s @
           [CreateRoom (getNodeFromJid (roomjid s))
              \<lparr>disableDiscoInfo = True, disableFocus = True,
               customDomain = lobbyroomComponentAddress s\<rparr> (nextRoom s),
            Join (nextRoom s)]\<rparr>)"
    using joinLobbyRoom_lobby[of password s displayName email] by auto
  have hs: "handlers_for MUC_JOINED (listeners (rooms ?s1 ?r)) = [OnMucJoined ?p email False]"
    by (simp add: j joined_lobby_room_def handlers_for_def)
  have pend: "promises ?s1 ?p = None" by (simp add: j)
  have res: "promises ?s1' ?p = Some Resolved" using settle_pending[OF pend] .
  have lr: "lobbyRoom ?s1' = Some ?r" and tr: "trace ?s1' = trace ?s1"
    and pr: "presence (rooms ?s1' ?r) = nick_presence displayName"
    by (simp_all add: settle_proj j joined_lobby_room_def)
  have nk: "filter (\<lambda>(k, n). k \<noteq> EMAIL_COMMAND) (nick_presence displayName) = nick_presence displayName"
    by (simp add: nick_presence_def EMAIL_COMMAND_def)
  have run: "room_emits ?r MucJoined ?s1 = run_handler (OnMucJoined ?p email False) MucJoined ?s1"
    by (simp add: room_emits_def hs split: prod.splits completion.splits)
  show ?thesis
  proof (cases "truthy email")
    case True
    then obtain a where a: "email = Some a" "a \<noteq> []" by (auto simp: truthy_def split: option.splits)
    show ?thesis
      unfolding run using a True res lr tr pr nk
      by (simp add: Let_def call_defs)
  next
    case False
    then show ?thesis unfolding run using res tr
      by (auto simp: Let_def truthy_def split: option.splits)
  qed
qed

theorem C8_email_presence_after_join_witness:
  "\<not> (joined participant_example \<and> isModerator participant_example) \<and> \<not> truthy None
   \<and> \<not> truthy (None :: string option) \<and> truthy (Some ''alice@example.com'')
   \<and> trace (snd (room_emits 0 MucJoined
        (snd (joinLobbyRoom (Some ''Alice'') None None participant_example)))) =
      trace (snd (joinLobbyRoom (Some ''Alice'') None None participant_example))
   \<and> trace (snd (room_emits 0 MucJoined
        (snd (joinLobbyRoom (Some ''Alice'') (Some ''alice@example.com'') None
               participant_example)))) =
      trace (snd (joinLobbyRoom (Some ''Alice'') (Some ''alice@example.com'') None
               participant_example)) @
      [SendPresence 0
         [(''nick'', \<lparr>attributes = [(''xmlns'', ''http://jabber.org/protocol/nick'')],
                     node_value = ''Alice''\<rparr>),
          (''email'', \<lparr>attributes = [], node_value = ''alice@example.com''\<rparr>)]]"
proof -
  have n: "\<not> truthy None" and y: "truthy (Some ''alice@example.com'')"
    by (simp_all add: truthy_def)
  have nick: "nick_presence (Some ''Alice'') =
     [(''nick'', \<lparr>attributes = [(''xmlns'', ''http://jabber.org/protocol/nick'')],
                 node_value = ''Alice''\<rparr>)]"
    by (simp add: nick_presence_def truthy_def)
  from C8_email_presence_after_join[OF participant_example_eval(1) n, of "Some ''Alice''" None]
    C8_email_presence_after_join[OF participant_example_eval(1) n, of "Some ''Alice''"
      "Some ''alice@example.com''"]
    n y nick participant_example_eval
  show ?thesis by (simp add: EMAIL_COMMAND_def)
qed

section \<open>Without lobby support, without a lobby room\<close>

text \<open>
  C9.  On a backend without a lobby component address (the configuration value is
  missing or empty) \<^verbatim>\<open>isLobbySupported()\<close> is false, \<^verbatim>\<open>enableLobby\<close> returns a promise
  that is rejected already and calls no collaborator (no stanza), and \<^verbatim>\<open>denyAccess\<close> and
  \<^verbatim>\<open>approveAccess\<close> return with the state they were called in.
\<close>

theorem C9_unsupported_backend:
  assumes "lobbyroomComponentAddress s = None \<or> lobbyroomComponentAddress s = Some ''''"
  shows "\<not> isLobbySupported s
       \<and> enableLobby password s =
           (Own (nextPromise s),
            s\<lparr>promises := (promises s)(nextPromise s := Some (Rejected (Error ''Lobby not supported!''))),
              nextPromise := Suc (nextPromise s)\<rparr>)
       \<and> trace (snd (enableLobby password s)) = trace s
       \<and> denyAccess ident s = (Normal, s)
       \<and> approveAccess ident s = (Normal, s)"
  using assms
  by (auto simp: isLobbySupported_def truthy_def enableLobby_def promise_reject_def
      denyAccess_def approveAccess_def)

theorem C9_unsupported_backend_witness:
  "lobbyroomComponentAddress unsupported_example = None
   \<and> \<not> isLobbySupported unsupported_example
   \<and> fst (enableLobby (Some ''xyz789'') unsupported_example) = Own 0
   \<and> promises (snd (enableLobby (Some ''xyz789'') unsupported_example)) 0 = Some (Rejected (Error ''Lobby not supported!''))
   \<and> trace (snd (enableLobby (Some ''xyz789'') unsupported_example)) = []
   \<and> denyAccess ''res123'' unsupported_example = (Normal, unsupported_example)
   \<and> approveAccess ''res123'' unsupported_example = (Normal, unsupported_example)"
proof -
  have a: "lobbyroomComponentAddress unsupported_example = None"
    and b: "nextPromise unsupported_example = 0" and c0: "trace unsupported_example = []"
    by (simp_all add: unsupported_example_def constructor_def)
  from C9_unsupported_backend[of unsupported_example "Some ''xyz789''" "''res123''"] a b c0
  show ?thesis by simp
qed

text \<open>
  C10.  On a controller on which nobody has asked to join the lobby room (neither
  \<^verbatim>\<open>joinLobbyRoom\<close> nor \<^verbatim>\<open>enableLobby\<close>, which calls it), whatever else has happened since
  the constructor, \<^verbatim>\<open>this.lobbyRoom\<close> is undefined, and \<^verbatim>\<open>denyAccess\<close> and
  \<^verbatim>\<open>approveAccess\<close> called by a moderator on a backend with lobby support throw a
  \<^verbatim>\<open>TypeError\<close> at the member lookup instead of returning.
\<close>

theorem C10_access_without_lobby_room_throws:
  assumes "\<forall>i \<in> set inputs. \<not> asks_to_join i"
    and "s = run inputs (constructor address room_jid is_joined is_moderator)"
    and "isLobbySupported s" and "isModerator s"
  shows "lobbyRoom s = None
       \<and> denyAccess ident s = (Throw TypeError, s)
       \<and> approveAccess ident s = (Throw TypeError, s)"
proof -
  have "untouched s" using assms(1,2) untouched_run[OF untouched_constructor] by simp
  then have "lobbyRoom s = None" by (simp add: untouched_def)
  with access_no_lobby_room[OF _ assms(3,4)] show ?thesis by simp
qed

theorem C10_access_without_lobby_room_throws_witness:
  "\<not> asks_to_join (MainRoomBecomes True True) \<and> \<not> asks_to_join (DenyAccess ''res123'')
   \<and> isLobbySupported fresh_moderator_example \<and> isModerator fresh_moderator_example
   \<and> lobbyRoom fresh_moderator_example = None
   \<and> denyAccess ''res123'' fresh_moderator_example = (Throw TypeError, fresh_moderator_example)
   \<and> approveAccess ''res123'' fresh_moderator_example = (Throw TypeError, fresh_moderator_example)"
proof -
  have sup: "isLobbySupported fresh_moderator_example" and md: "isModerator fresh_moderator_example"
    by (simp_all add: fresh_moderator_example_def run_def constructor_def denyAccess_def
        isLobbySupported_def truthy_def)
  have ins: "\<forall>i \<in> set [MainRoomBecomes True True, DenyAccess ''res123'']. \<not> asks_to_join i"
    by simp
  from C10_access_without_lobby_room_throws[OF ins fresh_moderator_example_def sup md, of "''res123''"] sup md
  show ?thesis by simp
qed

end
